theory Spec2Isabelle
  imports Complex_Main "HOL-Library.Sublist"
begin

section \<open>Durations and the numeric conversions of Go\<close>

text \<open>
  \<^verbatim>\<open>time.Duration\<close> is an \<^verbatim>\<open>int64\<close> count of nanoseconds. It is modelled as an
  \<^typ>\<open>int\<close>, and \<open>int64\<close> writes out the wrap-around of a product that leaves the
  64-bit range.
\<close>

type_synonym Duration = int

definition int64 :: "int \<Rightarrow> int" where
  "int64 x = (x + 2 ^ 63) mod 2 ^ 64 - 2 ^ 63"

definition Millisecond :: Duration where
  "Millisecond = 1000000"

definition Second :: Duration where
  "Second = 1000000000"

text \<open>Integer division of Go truncates toward zero.\<close>

definition quo :: "int \<Rightarrow> int \<Rightarrow> int" where
  "quo a b = sgn a * sgn b * (\<bar>a\<bar> div \<bar>b\<bar>)"

text \<open>\<^verbatim>\<open>func (d Duration) Milliseconds() int64 { return int64(d) / 1e6 }\<close>\<close>

definition Milliseconds :: "Duration \<Rightarrow> int" where
  "Milliseconds d = quo d 1000000"

text \<open>
  \<^verbatim>\<open>float64\<close> values are modelled by rationals. The model is exact wherever the
  \<^verbatim>\<open>float64\<close> computation is: a millisecond count of a \<^verbatim>\<open>Duration\<close> is below
  \<open>2 ^ 44\<close>, so its conversion to \<^verbatim>\<open>float64\<close>, its halves and \<^verbatim>\<open>math.Max\<close> of two such
  values are exact. \<^verbatim>\<open>Seconds\<close> and \<^verbatim>\<open>math.Pow\<close> round in general; they are exact on the
  inputs at which the theory evaluates them (multiples of half a second).
\<close>

type_synonym float64 = rat

definition float64_of :: "int \<Rightarrow> float64" where
  "float64_of n = of_int n"

text \<open>The conversion \<^verbatim>\<open>int64(f)\<close> and \<^verbatim>\<open>time.Duration(f)\<close> drops the fraction.\<close>

definition int64_of_float :: "float64 \<Rightarrow> int" where
  "int64_of_float x = (if 0 \<le> x then \<lfloor>x\<rfloor> else \<lceil>x\<rceil>)"

text \<open>
  \<^verbatim>\<open>func (d Duration) Seconds() float64 {
      sec := d / Second; nsec := d % Second
      return float64(sec) + float64(nsec)/1e9 }\<close>
\<close>

definition Seconds :: "Duration \<Rightarrow> float64" where
  "Seconds d = float64_of (quo d Second) + float64_of (d - quo d Second * Second) / 1000000000"

datatype panic = Panic string

text \<open>
  \<^verbatim>\<open>rand.Int63n(n)\<close> panics when \<open>n \<le> 0\<close> and otherwise returns a number in \<open>[0, n)\<close>.
  The argument \<open>src\<close> stands for what the random source draws; every number of
  \<open>[0, n)\<close> is the result for some \<open>src\<close>.
\<close>

definition Int63n :: "int \<Rightarrow> int \<Rightarrow> panic + int" where
  "Int63n src n = (if n \<le> 0 then Inl (Panic ''invalid argument to Int63n'') else Inr (src mod n))"

section \<open>The visited set: memoryCache\<close>

text \<open>
  \<^verbatim>\<open>type memoryCache struct { mutex sync.RWMutex; cache map[string]map[string]bool }\<close>

  The outer map is the one \<^verbatim>\<open>newMemoryCache\<close> makes: the type is unexported and has no
  other constructor. Reading a key that a Go map does not hold gives the zero value
  \<^verbatim>\<open>false\<close>.
\<close>

record memoryCache =
  cache_map :: "string \<rightharpoonup> (string \<rightharpoonup> bool)"

definition newMemoryCache :: memoryCache where
  "newMemoryCache = \<lparr>cache_map = Map.empty\<rparr>"

text \<open>
  \<^verbatim>\<open>_, ok := c.cache[namespace]
  if !ok { c.cache[namespace] = make(map[string]bool) }
  c.cache[namespace][key] = true\<close>

  At the last line the inner map exists, whichever way the test went.
\<close>

definition Set :: "string \<Rightarrow> string \<Rightarrow> memoryCache \<Rightarrow> memoryCache" where
  "Set namespace key c =
     (let c1 = (case cache_map c namespace of
                  None \<Rightarrow> c\<lparr>cache_map := (cache_map c)(namespace \<mapsto> Map.empty)\<rparr>
                | Some _ \<Rightarrow> c)
      in case cache_map c1 namespace of
           None \<Rightarrow> c1
         | Some inner \<Rightarrow> c1\<lparr>cache_map := (cache_map c1)(namespace \<mapsto> inner(key \<mapsto> True))\<rparr>)"

text \<open>
  \<^verbatim>\<open>inner, ok := c.cache[namespace]
  if !ok { return false }
  return inner[key]\<close>
\<close>

definition Contains :: "string \<Rightarrow> string \<Rightarrow> memoryCache \<Rightarrow> bool" where
  "Contains namespace key c =
     (case cache_map c namespace of
        None \<Rightarrow> False
      | Some inner \<Rightarrow> (case inner key of None \<Rightarrow> False | Some b \<Rightarrow> b))"

text \<open>A run of \<^verbatim>\<open>Set\<close> calls, oldest first.\<close>

fun SetAll :: "(string \<times> string) list \<Rightarrow> memoryCache \<Rightarrow> memoryCache" where
  "SetAll [] c = c"
| "SetAll ((namespace, key) # rest) c = SetAll rest (Set namespace key c)"

section \<open>URLs, robots.txt groups and HTTP responses\<close>

text \<open>
  The fields of \<^verbatim>\<open>url.URL\<close> that the crawler reads or writes. The functions and methods
  of \<^verbatim>\<open>net/url\<close> that it calls are not code of the repository: they are taken as a
  parameter \<open>L\<close>, and what is proved holds for every behaviour of them.
\<close>

type_synonym error = string

record URL =
  Scheme :: string
  Host :: string
  Path :: string
  RawQuery :: string
  Fragment :: string

record neturl =
  url_Parse :: "string \<Rightarrow> error + URL"
  url_String :: "URL \<Rightarrow> string"
  url_Hostname :: "URL \<Rightarrow> string"
  url_RequestURI :: "URL \<Rightarrow> string"
  url_ResolveReference :: "URL \<Rightarrow> URL \<Rightarrow> URL"

text \<open>
  The package \<^verbatim>\<open>github.com/temoto/robotstxt\<close> is not code of the repository; \<^verbatim>\<open>go.mod\<close>
  pins its version 1.1.1. Of a \<^verbatim>\<open>robotstxt.Group\<close> the crawler calls the method \<^verbatim>\<open>Test\<close> and
  reads the field \<^verbatim>\<open>CrawlDelay\<close>. Of a \<^verbatim>\<open>robotstxt.RobotsData\<close> it calls \<^verbatim>\<open>FindGroup\<close>, which
  reads the map \<^verbatim>\<open>groups\<close> from agent names to groups, kept here as a list of pairs with
  distinct names. Reading and parsing a response, \<^verbatim>\<open>robotstxt.FromResponse\<close>, is the
  parameter \<open>R\<close>.
\<close>

record Group =
  Test :: "string \<Rightarrow> bool"
  Group_CrawlDelay :: Duration

record Response =
  StatusCode :: int
  Status :: string
  Body :: string

record RobotsData =
  groups :: "(string \<times> Group) list"

type_synonym robotstxt = "Response \<Rightarrow> error + RobotsData"

text \<open>
  \<^verbatim>\<open>var emptyGroup = &Group{}\<close>: the group without rules, whose \<^verbatim>\<open>Test\<close> accepts every path
  and whose crawl delay is zero.
\<close>

definition emptyGroup :: Group where
  "emptyGroup = \<lparr>Test = (\<lambda>path. True), Group_CrawlDelay = 0\<rparr>"

text \<open>\<^verbatim>\<open>strings.ToLower\<close>, on the ASCII letters.\<close>

definition ToLower :: "string \<Rightarrow> string" where
  "ToLower s =
     map (\<lambda>c. case map_of (zip ''ABCDEFGHIJKLMNOPQRSTUVWXYZ'' ''abcdefghijklmnopqrstuvwxyz'') c of
                 None \<Rightarrow> c
               | Some l \<Rightarrow> l) s"

text \<open>
  \<^verbatim>\<open>FindGroup\<close> of version 1.1.1:

  \<^verbatim>\<open>func (r *RobotsData) FindGroup(agent string) (ret *Group) {
      var prefixLen int
      agent = strings.ToLower(agent)
      if ret = r.groups["*"]; ret != nil { prefixLen = 1 }
      for a, g := range r.groups {
          if a != "*" && strings.HasPrefix(agent, a) {
              if l := len(a); l > prefixLen { prefixLen = l; ret = g } } }
      if ret == nil { return emptyGroup }
      return }\<close>

  The result is a pointer, \<open>None\<close> for nil. Two names of one length that are both
  prefixes of the agent are one name, so the order in which the map is ranged over does
  not matter.
\<close>

definition FindGroup :: "RobotsData \<Rightarrow> string \<Rightarrow> Group option" where
  "FindGroup r agent =
     (let agent' = ToLower agent;
          start = (case map_of (groups r) ''*'' of
                     None \<Rightarrow> (None, 0 :: nat)
                   | Some g \<Rightarrow> (Some g, 1));
          (ret, prefixLen) =
            foldl (\<lambda>(ret, prefixLen) (a, g).
                     if a \<noteq> ''*'' \<and> prefix a agent' \<and> length a > prefixLen
                     then (Some g, length a) else (ret, prefixLen))
              start (groups r)
      in case ret of None \<Rightarrow> Some emptyGroup | Some g \<Rightarrow> Some g)"

text \<open>
  For the statements about \<^verbatim>\<open>FindGroup\<close>: the groups of a robots.txt that match an agent,
  that is the group of \<^verbatim>\<open>*\<close> and those whose name the agent, in lower case, starts with.
\<close>

definition matching :: "RobotsData \<Rightarrow> string \<Rightarrow> (string \<times> Group) list" where
  "matching r agent =
     filter (\<lambda>(a, g). a = ''*'' \<or> prefix a (ToLower agent)) (groups r)"

text \<open>
  The method \<^verbatim>\<open>Fetch\<close> of the interface \<^verbatim>\<open>Fetcher\<close>: the elapsed time and either the
  error or the response.
\<close>

type_synonym Fetch = "string \<Rightarrow> Duration \<times> (error + Response)"

section \<open>CrawlingRules\<close>

text \<open>
  The model is sequential: an operation runs alone, so no acquisition of the mutex
  waits. The mutex is kept as the number of readers and the writer's flag, to follow
  each lock to its release.
\<close>

record RWMutex =
  readerCount :: nat
  writerHeld :: bool

definition RLock :: "RWMutex \<Rightarrow> RWMutex" where
  "RLock m = m\<lparr>readerCount := readerCount m + 1\<rparr>"

definition RUnlock :: "RWMutex \<Rightarrow> RWMutex" where
  "RUnlock m = m\<lparr>readerCount := readerCount m - 1\<rparr>"

definition Lock :: "RWMutex \<Rightarrow> RWMutex" where
  "Lock m = m\<lparr>writerHeld := True\<rparr>"

definition Unlock :: "RWMutex \<Rightarrow> RWMutex" where
  "Unlock m = m\<lparr>writerHeld := False\<rparr>"

record CrawlingRules =
  baseDomain :: URL
  cache :: memoryCache
  robotsGroup :: "Group option"
  fixedDelay :: Duration
  lastDelay :: Duration
  rwMutex :: RWMutex

definition robotsTxtPath :: string where
  "robotsTxtPath = ''/robots.txt''"

definition NewCrawlingRules :: "URL \<Rightarrow> memoryCache \<Rightarrow> Duration \<Rightarrow> CrawlingRules" where
  "NewCrawlingRules domain c fixed =
     \<lparr>baseDomain = domain, cache = c, robotsGroup = None, fixedDelay = fixed, lastDelay = 0,
      rwMutex = \<lparr>readerCount = 0, writerHeld = False\<rparr>\<rparr>"

text \<open>
  \<^verbatim>\<open>func subdomain(domain *url.URL, link *url.URL) bool {
      return (link.Hostname() == domain.Hostname() || link.Hostname() == "") }\<close>
\<close>

definition subdomain :: "neturl \<Rightarrow> URL \<Rightarrow> URL \<Rightarrow> bool" where
  "subdomain L domain link =
     (url_Hostname L link = url_Hostname L domain \<or> url_Hostname L link = [])"

text \<open>
  \<^verbatim>\<open>if r.cache.Contains(r.baseDomain.String(), url.String()) { return false }
  defer r.cache.Set(r.baseDomain.String(), url.String())
  if r.robotsGroup != nil {
      return r.robotsGroup.Test(url.RequestURI()) && subdomain(r.baseDomain, url) }
  return subdomain(r.baseDomain, url)\<close>

  The deferred \<^verbatim>\<open>Set\<close> runs after the result is computed, on every path past the first
  return.
\<close>

definition Allowed :: "neturl \<Rightarrow> URL \<Rightarrow> CrawlingRules \<Rightarrow> bool \<times> CrawlingRules" where
  "Allowed L u r =
     (if Contains (url_String L (baseDomain r)) (url_String L u) (cache r) then (False, r)
      else
        let result = (case robotsGroup r of
                        Some g \<Rightarrow> Test g (url_RequestURI L u) \<and> subdomain L (baseDomain r) u
                      | None \<Rightarrow> subdomain L (baseDomain r) u)
        in (result, r\<lparr>cache := Set (url_String L (baseDomain r)) (url_String L u) (cache r)\<rparr>))"

text \<open>
  \<^verbatim>\<open>func randDelay(value int64) time.Duration {
      if value == 0 { return 0 }
      max, min := 1.5*float64(value), 0.5*float64(value)
      return time.Duration(rand.Int63n(int64(max-min)) + int64(max)) }\<close>
\<close>

definition randDelay :: "int \<Rightarrow> int \<Rightarrow> panic + Duration" where
  "randDelay src v =
     (if v = 0 then Inr 0
      else
        let mx = 1.5 * float64_of v; mn = 0.5 * float64_of v
        in case Int63n src (int64_of_float (mx - mn)) of
             Inl p \<Rightarrow> Inl p
           | Inr n \<Rightarrow> Inr (int64 (n + int64_of_float mx)))"

text \<open>
  \<^verbatim>\<open>r.rwMutex.RLock(); defer r.rwMutex.RUnlock()
  var delay time.Duration
  if r.robotsGroup != nil { delay = r.robotsGroup.CrawlDelay }
  randomDelay := randDelay(int64(r.fixedDelay.Milliseconds())) * time.Millisecond
  baseDelay := time.Duration(
      math.Max(float64(randomDelay.Milliseconds()), float64(delay.Milliseconds())),
  ) * time.Millisecond
  return time.Duration(
      math.Max(float64(r.lastDelay.Milliseconds()), float64(baseDelay.Milliseconds())),
  ) * time.Millisecond\<close>

  A panic of \<^verbatim>\<open>randDelay\<close> leaves through the deferred \<^verbatim>\<open>RUnlock\<close> as well.
\<close>

definition CrawlDelay :: "int \<Rightarrow> CrawlingRules \<Rightarrow> (panic + Duration) \<times> CrawlingRules" where
  "CrawlDelay src r =
     (let r1 = r\<lparr>rwMutex := RLock (rwMutex r)\<rparr>;
          delay = (case robotsGroup r1 of Some g \<Rightarrow> Group_CrawlDelay g | None \<Rightarrow> 0);
          result =
            (case randDelay src (Milliseconds (fixedDelay r1)) of
               Inl p \<Rightarrow> Inl p
             | Inr d \<Rightarrow>
                 let randomDelay = int64 (d * Millisecond);
                     baseDelay = int64 (int64_of_float
                        (max (float64_of (Milliseconds randomDelay))
                             (float64_of (Milliseconds delay))) * Millisecond)
                 in Inr (int64 (int64_of_float
                        (max (float64_of (Milliseconds (lastDelay r1)))
                             (float64_of (Milliseconds baseDelay))) * Millisecond)))
      in (result, r1\<lparr>rwMutex := RUnlock (rwMutex r1)\<rparr>))"

text \<open>
  \<^verbatim>\<open>r.rwMutex.Lock()
  r.lastDelay = time.Duration(
      math.Pow(float64(lastResponseTime.Seconds()), 2.0),
  ) * time.Second
  r.rwMutex.Unlock()\<close>
\<close>

definition UpdateLastDelay :: "Duration \<Rightarrow> CrawlingRules \<Rightarrow> CrawlingRules" where
  "UpdateLastDelay lastResponseTime r =
     (let r1 = r\<lparr>rwMutex := Lock (rwMutex r)\<rparr>;
          r2 = r1\<lparr>lastDelay := int64 (int64_of_float ((Seconds lastResponseTime) ^ 2) * Second)\<rparr>
      in r2\<lparr>rwMutex := Unlock (rwMutex r2)\<rparr>)"

text \<open>
  \<^verbatim>\<open>u, _ := url.Parse(robotsTxtPath)
  targetURL := domain.ResolveReference(u)
  _, res, err := f.Fetch(targetURL.String())
  if err != nil || res.StatusCode == http.StatusNotFound { return false }
  body, err := robotstxt.FromResponse(res)
  if err != nil { return false }
  r.robotsGroup = body.FindGroup(userAgent)
  return r.robotsGroup != nil\<close>

  The error of \<^verbatim>\<open>url.Parse\<close> is dropped; were it to fail, \<^verbatim>\<open>u\<close> would be nil and
  \<^verbatim>\<open>ResolveReference\<close> would dereference it.
\<close>

definition GetRobotsTxtGroup ::
  "neturl \<Rightarrow> robotstxt \<Rightarrow> Fetch \<Rightarrow> string \<Rightarrow> URL \<Rightarrow> CrawlingRules \<Rightarrow> panic + (bool \<times> CrawlingRules)" where
  "GetRobotsTxtGroup L R f userAgent domain r =
     (case url_Parse L robotsTxtPath of
        Inl _ \<Rightarrow> Inl (Panic ''nil pointer dereference'')
      | Inr u \<Rightarrow>
          let targetURL = url_ResolveReference L domain u in
          (case snd (f (url_String L targetURL)) of
             Inl err \<Rightarrow> Inr (False, r)
           | Inr res \<Rightarrow>
               if StatusCode res = 404 then Inr (False, r)
               else
                 (case R res of
                    Inl err \<Rightarrow> Inr (False, r)
                  | Inr body \<Rightarrow>
                      let r' = r\<lparr>robotsGroup := FindGroup body userAgent\<rparr>
                      in Inr (robotsGroup r' \<noteq> None, r'))))"

text \<open>
  The operations of a \<^verbatim>\<open>CrawlingRules\<close>, and the state a sequence of them leaves. An
  operation that panics leaves the state as it found it.
\<close>

datatype operation =
    OpAllowed URL
  | OpCrawlDelay int
  | OpUpdateLastDelay Duration
  | OpGetRobotsTxtGroup robotstxt Fetch string URL

fun perform :: "neturl \<Rightarrow> operation \<Rightarrow> CrawlingRules \<Rightarrow> CrawlingRules" where
  "perform L (OpAllowed u) r = snd (Allowed L u r)"
| "perform L (OpCrawlDelay src) r = snd (CrawlDelay src r)"
| "perform L (OpUpdateLastDelay t) r = UpdateLastDelay t r"
| "perform L (OpGetRobotsTxtGroup R f userAgent domain) r =
     (case GetRobotsTxtGroup L R f userAgent domain r of Inl _ \<Rightarrow> r | Inr (_, r') \<Rightarrow> r')"

fun performAll :: "neturl \<Rightarrow> operation list \<Rightarrow> CrawlingRules \<Rightarrow> CrawlingRules" where
  "performAll L [] r = r"
| "performAll L (op # ops) r = performAll L ops (perform L op r)"

section \<open>The link extractor: GoqueryParser\<close>

text \<open>
  An HTML document as \<^verbatim>\<open>goquery\<close> hands it over: its element nodes in document order,
  each with its tag name (\<^verbatim>\<open>Data\<close>) and its attributes (\<^verbatim>\<open>Attr\<close>). Reading and parsing
  the HTML is \<^verbatim>\<open>goquery.NewDocumentFromReader\<close>, a parameter.
\<close>

record Node =
  Data :: string
  Attr :: "(string \<times> string) list"

type_synonym Document = "Node list"

type_synonym goquery = "string \<Rightarrow> error + Document"

text \<open>\<^verbatim>\<open>Selection.Attr\<close>: the value of the first attribute of that name, and whether there is one.\<close>

definition Attr_of :: "Node \<Rightarrow> string \<Rightarrow> string \<times> bool" where
  "Attr_of element name =
     (case map_of (Attr element) name of None \<Rightarrow> ([], False) | Some val \<Rightarrow> (val, True))"

text \<open>\<^verbatim>\<open>doc.Find("a,link")\<close>: the \<^verbatim>\<open>a\<close> and \<^verbatim>\<open>link\<close> elements, in document order.\<close>

definition Find :: "Document \<Rightarrow> Node list" where
  "Find doc = filter (\<lambda>n. Data n = ''a'' \<or> Data n = ''link'') doc"

text \<open>
  \<^verbatim>\<open>filepath.Ext\<close>: the suffix beginning at the final dot in the final slash-separated
  element of the path, empty if there is no dot.
\<close>

definition Ext :: "string \<Rightarrow> string" where
  "Ext path =
     (let final = rev (takeWhile (\<lambda>c. c \<noteq> CHR ''/'') (rev path))
      in if CHR ''.'' \<in> set final
         then CHR ''.'' # rev (takeWhile (\<lambda>c. c \<noteq> CHR ''.'') (rev final))
         else [])"

text \<open>
  \<^verbatim>\<open>type GoqueryParser struct { excludedExts map[string]bool; seen *sync.Map }\<close>

  Both fields are references: the copy that the value receiver of \<^verbatim>\<open>Parse\<close> makes
  shares them with the caller's parser, so \<^verbatim>\<open>Parse\<close> returns the parser it leaves.
\<close>

record GoqueryParser =
  excludedExts :: "string \<rightharpoonup> bool"
  seen :: "string \<rightharpoonup> bool"

definition NewGoqueryParser :: GoqueryParser where
  "NewGoqueryParser = \<lparr>excludedExts = Map.empty, seen = Map.empty\<rparr>"

text \<open>\<^verbatim>\<open>for _, ext := range exts { p.excludedExts[ext] = true }\<close>\<close>

fun ExcludeExtensions :: "string list \<Rightarrow> GoqueryParser \<Rightarrow> GoqueryParser" where
  "ExcludeExtensions [] p = p"
| "ExcludeExtensions (ext # exts) p =
     ExcludeExtensions exts (p\<lparr>excludedExts := (excludedExts p)(ext \<mapsto> True)\<rparr>)"

text \<open>\<^verbatim>\<open>m[k]\<close> on a \<^verbatim>\<open>map[string]bool\<close>: \<^verbatim>\<open>false\<close> for a key the map does not hold.\<close>

definition index_bool :: "(string \<rightharpoonup> bool) \<Rightarrow> string \<Rightarrow> bool" where
  "index_bool m k = (case m k of None \<Rightarrow> False | Some b \<Rightarrow> b)"

text \<open>
  \<^verbatim>\<open>sync.Map.LoadOrStore(key, value)\<close> returns the value the map holds for the key, or
  stores and returns the given one; \<^verbatim>\<open>Store\<close> sets it.
\<close>

definition LoadOrStore :: "(string \<rightharpoonup> bool) \<Rightarrow> string \<Rightarrow> bool \<Rightarrow> (bool \<times> bool) \<times> (string \<rightharpoonup> bool)" where
  "LoadOrStore m key val =
     (case m key of None \<Rightarrow> ((val, False), m(key \<mapsto> val)) | Some actual \<Rightarrow> ((actual, True), m))"

definition Store :: "(string \<rightharpoonup> bool) \<Rightarrow> string \<Rightarrow> bool \<Rightarrow> (string \<rightharpoonup> bool)" where
  "Store m key val = m(key \<mapsto> val)"

text \<open>
  \<^verbatim>\<open>u, err := url.Parse(relative)
  if err != nil { return nil, false }
  if u.Hostname() != "" { return u, true }
  base, err := url.Parse(baseURL)
  if err != nil { return nil, false }
  return base.ResolveReference(u), true\<close>
\<close>

definition resolveRelativeURL :: "neturl \<Rightarrow> string \<Rightarrow> string \<Rightarrow> URL option" where
  "resolveRelativeURL L baseURL relative =
     (case url_Parse L relative of
        Inl _ \<Rightarrow> None
      | Inr u \<Rightarrow>
          if url_Hostname L u \<noteq> [] then Some u
          else (case url_Parse L baseURL of
                  Inl _ \<Rightarrow> None
                | Inr base \<Rightarrow> Some (url_ResolveReference L base u)))"

text \<open>
  The predicate of \<^verbatim>\<open>FilterFunction\<close>:

  \<^verbatim>\<open>hrefLink, hrefExists := element.Attr("href")
  linkType, linkExists := element.Attr("rel")
  anchorOk := hrefExists && !p.excludedExts[filepath.Ext(hrefLink)]
  linkOk := linkExists && linkType == "canonical" && !p.excludedExts[filepath.Ext(linkType)]
  return anchorOk || linkOk\<close>
\<close>

definition selected :: "GoqueryParser \<Rightarrow> Node \<Rightarrow> bool" where
  "selected p element =
     (let (hrefLink, hrefExists) = Attr_of element ''href'';
          (linkType, linkExists) = Attr_of element ''rel'';
          anchorOk = (hrefExists \<and> \<not> index_bool (excludedExts p) (Ext hrefLink));
          linkOk = (linkExists \<and> linkType = ''canonical'' \<and>
                    \<not> index_bool (excludedExts p) (Ext linkType))
      in anchorOk \<or> linkOk)"

text \<open>
  The body of \<^verbatim>\<open>Each\<close>, on the links found so far and the seen-set:

  \<^verbatim>\<open>res, _ := element.Attr("href")
  if link, ok := resolveRelativeURL(baseURL, res); ok {
      if present, _ := p.seen.LoadOrStore(link.String(), false); !present.(bool) {
          foundURLs = append(foundURLs, link)
          p.seen.Store(link.String(), true) } }\<close>
\<close>

definition visit ::
  "neturl \<Rightarrow> string \<Rightarrow> URL list \<times> (string \<rightharpoonup> bool) \<Rightarrow> Node \<Rightarrow> URL list \<times> (string \<rightharpoonup> bool)" where
  "visit L baseURL acc element =
     (let (foundURLs, sn) = acc;
          res = fst (Attr_of element ''href'')
      in case resolveRelativeURL L baseURL res of
           None \<Rightarrow> (foundURLs, sn)
         | Some link \<Rightarrow>
             let ((present, _), sn1) = LoadOrStore sn (url_String L link) False
             in if \<not> present then (foundURLs @ [link], Store sn1 (url_String L link) True)
                else (foundURLs, sn1))"

text \<open>
  \<^verbatim>\<open>if doc == nil { return nil }
  foundURLs := []*url.URL{}
  doc.Find("a,link").FilterFunction(...).Each(...)
  return foundURLs\<close>

  A nil document is \<open>None\<close>, and so is the nil slice returned for it.
\<close>

definition extractLinks ::
  "neturl \<Rightarrow> GoqueryParser \<Rightarrow> Document option \<Rightarrow> string \<Rightarrow> URL list option \<times> GoqueryParser" where
  "extractLinks L p doc baseURL =
     (case doc of
        None \<Rightarrow> (None, p)
      | Some d \<Rightarrow>
          let (foundURLs, sn) = foldl (visit L baseURL) ([], seen p) (filter (selected p) (Find d))
          in (Some foundURLs, p\<lparr>seen := sn\<rparr>))"

text \<open>
  \<^verbatim>\<open>doc, err := goquery.NewDocumentFromReader(reader)
  if err != nil { return nil, err }
  links := p.extractLinks(doc, baseURL)
  return links, nil\<close>
\<close>

definition Parse ::
  "neturl \<Rightarrow> goquery \<Rightarrow> string \<Rightarrow> string \<Rightarrow> GoqueryParser \<Rightarrow>
     (URL list option \<times> error option) \<times> GoqueryParser" where
  "Parse L NewDocumentFromReader baseURL reader p =
     (case NewDocumentFromReader reader of
        Inl err \<Rightarrow> ((None, Some err), p)
      | Inr doc \<Rightarrow>
          let (links, p') = extractLinks L p (Some doc) baseURL
          in ((links, None), p'))"

text \<open>
  A sequence of \<^verbatim>\<open>Parse\<close> calls on one parser, each with its base URL and its input, and
  the links a result carries (none for a nil slice).
\<close>

fun ParseAll ::
  "neturl \<Rightarrow> goquery \<Rightarrow> (string \<times> string) list \<Rightarrow> GoqueryParser \<Rightarrow>
     (URL list option \<times> error option) list" where
  "ParseAll L H [] p = []"
| "ParseAll L H ((baseURL, reader) # calls) p =
     (let (res, p') = Parse L H baseURL reader p in res # ParseAll L H calls p')"

definition links_of :: "URL list option \<times> error option \<Rightarrow> URL list" where
  "links_of res = (case fst res of None \<Rightarrow> [] | Some links \<Rightarrow> links)"

text \<open>
  For the statement of the document order. The links that a list of elements resolves
  to, in order and with their repetitions; those of the selected elements of an input;
  the strings that the seen-set holds as true; and a list cut down to the first
  occurrence of each of its members.
\<close>

definition resolved :: "neturl \<Rightarrow> string \<Rightarrow> Node list \<Rightarrow> URL list" where
  "resolved L baseURL elements =
     List.map_filter (\<lambda>element. resolveRelativeURL L baseURL (fst (Attr_of element ''href'')))
       elements"

definition candidates :: "neturl \<Rightarrow> goquery \<Rightarrow> GoqueryParser \<Rightarrow> string \<Rightarrow> string \<Rightarrow> URL list" where
  "candidates L H p baseURL reader =
     (case H reader of
        Inl _ \<Rightarrow> []
      | Inr doc \<Rightarrow> resolved L baseURL (filter (selected p) (Find doc)))"

definition marked :: "(string \<rightharpoonup> bool) \<Rightarrow> string set" where
  "marked sn = {k. sn k = Some True}"

fun first_occurrences :: "'a list \<Rightarrow> 'a list" where
  "first_occurrences [] = []"
| "first_occurrences (x # xs) = x # first_occurrences (filter (\<lambda>y. y \<noteq> x) xs)"

section \<open>The fetcher: stdHttpFetcher\<close>

text \<open>
  The interface \<^verbatim>\<open>Parser\<close> has the one method \<^verbatim>\<open>Parse(string, io.Reader) ([]*url.URL, error)\<close>.
  A value of the interface is the method together with the state of the object behind it;
  \<open>None\<close> is the nil interface.
\<close>

record 'p Parser =
  Parser_Parse :: "string \<Rightarrow> string \<Rightarrow> 'p \<Rightarrow> (URL list option \<times> error option) \<times> 'p"
  Parser_state :: 'p

text \<open>
  \<^verbatim>\<open>net/http\<close> as the fetcher uses it: whether \<^verbatim>\<open>http.NewRequest("GET", url, nil)\<close> fails, and
  what \<^verbatim>\<open>client.Do\<close> returns for the request with the given \<^verbatim>\<open>User-Agent\<close>, with the time
  it took. The field \<^verbatim>\<open>client\<close> of \<^verbatim>\<open>stdHttpFetcher\<close> is this parameter, \<open>C\<close>.
\<close>

record http =
  NewRequest :: "string \<Rightarrow> error option"
  Do :: "string \<Rightarrow> string \<Rightarrow> Duration \<times> (error + Response)"

record 'p stdHttpFetcher =
  userAgent :: string
  parser :: "'p Parser option"

text \<open>
  \<^verbatim>\<open>func parseStartURL(u string) string {
      parsed, _ := url.Parse(u)
      return fmt.Sprintf("%s://%s", parsed.Scheme, parsed.Host) }\<close>

  The error is dropped: when \<^verbatim>\<open>url.Parse\<close> fails, \<^verbatim>\<open>parsed\<close> is nil and reading its field
  panics.
\<close>

definition parseStartURL :: "neturl \<Rightarrow> string \<Rightarrow> panic + string" where
  "parseStartURL L u =
     (case url_Parse L u of
        Inl _ \<Rightarrow> Inl (Panic ''nil pointer dereference'')
      | Inr parsed \<Rightarrow> Inr (Scheme parsed @ ''://'' @ Host parsed))"

text \<open>
  \<^verbatim>\<open>req, err := http.NewRequest("GET", url, nil)
  if err != nil { return time.Duration(0), nil, err }
  req.Header.Set("User-Agent", f.userAgent)
  start := time.Now(); res, err := f.client.Do(req); elapsed := time.Since(start)
  if err != nil { return elapsed, nil, err }
  return elapsed, res, nil\<close>
\<close>

definition Fetch :: "http \<Rightarrow> 'p stdHttpFetcher \<Rightarrow> string \<Rightarrow> Duration \<times> (error + Response)" where
  "Fetch C f url =
     (case NewRequest C url of
        Some err \<Rightarrow> (0, Inl err)
      | None \<Rightarrow> Do C (userAgent f) url)"

text \<open>
  \<^verbatim>\<open>FetchLinks\<close> of \<^verbatim>\<open>src/unnamed/part_004\<close>:

  \<^verbatim>\<open>if f.parser == nil {
      return time.Duration(0), nil, fmt.Errorf("fetching links from %s failed: no parser set", targetURL) }
  baseDomain := parseStartURL(targetURL)
  elapsed, resp, err := f.Fetch(targetURL)
  if err != nil {
      return elapsed, nil, fmt.Errorf("fetching links from %s failed: %w", targetURL, err) }
  defer resp.Body.Close()
  if resp.StatusCode >= http.StatusBadRequest {
      return elapsed, nil, fmt.Errorf("fetching links from %s failed: %s", targetURL, resp.Status) }
  links, err := f.parser.Parse(baseDomain, resp.Body)
  if err != nil {
      return elapsed, nil, fmt.Errorf("fetching links from %s failed: %w", targetURL, err) }
  return elapsed, links, nil\<close>

  The result is the triple that Go returns, with \<open>None\<close> for a nil slice and for a nil
  error, and the fetcher with the state its parser is left in.
\<close>

definition failed :: "string \<Rightarrow> string \<Rightarrow> error" where
  "failed targetURL what = ''fetching links from '' @ targetURL @ '' failed: '' @ what"

definition FetchLinks ::
  "neturl \<Rightarrow> http \<Rightarrow> 'p stdHttpFetcher \<Rightarrow> string \<Rightarrow>
     panic + ((Duration \<times> URL list option \<times> error option) \<times> 'p stdHttpFetcher)" where
  "FetchLinks L C f targetURL =
     (case parser f of
        None \<Rightarrow> Inr ((0, None, Some (failed targetURL ''no parser set'')), f)
      | Some P \<Rightarrow>
          (case parseStartURL L targetURL of
             Inl pn \<Rightarrow> Inl pn
           | Inr base \<Rightarrow>
               let (elapsed, res) = Fetch C f targetURL in
               (case res of
                  Inl err \<Rightarrow> Inr ((elapsed, None, Some (failed targetURL err)), f)
                | Inr resp \<Rightarrow>
                    if StatusCode resp \<ge> 400
                    then Inr ((elapsed, None, Some (failed targetURL (Status resp))), f)
                    else
                      let ((links, err), st) = Parser_Parse P base (Body resp) (Parser_state P);
                          f' = f\<lparr>parser := Some (P\<lparr>Parser_state := st\<rparr>)\<rparr>
                      in (case err of
                            Some e \<Rightarrow> Inr ((elapsed, None, Some (failed targetURL e)), f')
                          | None \<Rightarrow> Inr ((elapsed, links, None), f')))))"

text \<open>
  \<^verbatim>\<open>FetchLinks\<close> of \<^verbatim>\<open>src/unnamed/part_001\<close>, which tests the error and the status at once:

  \<^verbatim>\<open>elapsed, resp, err := f.Fetch(targetURL)
  if err != nil || resp.StatusCode >= http.StatusBadRequest {
      return elapsed, nil, fmt.Errorf("fetching links from %s failed: %w", targetURL, err) }
  defer resp.Body.Close()\<close>

  With a nil \<^verbatim>\<open>err\<close> the verb \<^verbatim>\<open>%w\<close> prints \<^verbatim>\<open>%!w(<nil>)\<close>; the error returned is not nil.
\<close>

definition FetchLinks_part_001 ::
  "neturl \<Rightarrow> http \<Rightarrow> 'p stdHttpFetcher \<Rightarrow> string \<Rightarrow>
     panic + ((Duration \<times> URL list option \<times> error option) \<times> 'p stdHttpFetcher)" where
  "FetchLinks_part_001 L C f targetURL =
     (case parser f of
        None \<Rightarrow> Inr ((0, None, Some (failed targetURL ''no parser set'')), f)
      | Some P \<Rightarrow>
          (case parseStartURL L targetURL of
             Inl pn \<Rightarrow> Inl pn
           | Inr base \<Rightarrow>
               let (elapsed, res) = Fetch C f targetURL in
               (case res of
                  Inl err \<Rightarrow> Inr ((elapsed, None, Some (failed targetURL err)), f)
                | Inr resp \<Rightarrow>
                    if StatusCode resp \<ge> 400
                    then Inr ((elapsed, None, Some (failed targetURL ''%!w(<nil>)'')), f)
                    else
                      let ((links, err), st) = Parser_Parse P base (Body resp) (Parser_state P);
                          f' = f\<lparr>parser := Some (P\<lparr>Parser_state := st\<rparr>)\<rparr>
                      in (case err of
                            Some e \<Rightarrow> Inr ((elapsed, None, Some (failed targetURL e)), f')
                          | None \<Rightarrow> Inr ((elapsed, links, None), f')))))"

section \<open>The orchestrator: Crawl\<close>

text \<open>
  \<^verbatim>\<open>wg := sync.WaitGroup{}
  for _, href := range URLs {
      url, err := url.Parse(href)
      if err != nil { c.logger.Fatal(err) }
      if url.Scheme == "" { url.Scheme = "https" }
      wg.Add(1)
      go c.crawlPage(url, &wg, ctx) }
  ...
  wg.Wait()
  c.logger.Println("Crawling done")\<close>

  \<^verbatim>\<open>Logger.Fatal\<close> prints and then calls \<^verbatim>\<open>os.Exit(1)\<close>. Each engine, \<^verbatim>\<open>crawlPage\<close>, starts
  with \<^verbatim>\<open>defer wg.Done()\<close>, so it takes its count off the wait group when, and only when,
  it comes to its end. The engines run concurrently and their work is not part of this
  model: whether the engine of a root URL comes to its end is the parameter \<open>ends\<close>. No
  signal is taken to arrive. The model keeps what the crawler logs, for which root URLs
  an engine was started, the counter of the wait group, and how \<^verbatim>\<open>Crawl\<close> ends: it returns,
  the process exits, or \<^verbatim>\<open>wg.Wait\<close> blocks for good.
\<close>

datatype ending = Return | Exit int | Blocked

record process =
  logged :: "string list"
  engines :: "URL list"
  wg :: nat

fun seeds :: "neturl \<Rightarrow> string list \<Rightarrow> process \<Rightarrow> int option \<times> process" where
  "seeds L [] st = (None, st)"
| "seeds L (href # rest) st =
     (case url_Parse L href of
        Inl err \<Rightarrow> (Some 1, st\<lparr>logged := logged st @ [err]\<rparr>)
      | Inr url \<Rightarrow>
          let url1 = (if Scheme url = [] then url\<lparr>Scheme := ''https''\<rparr> else url)
          in seeds L rest (st\<lparr>wg := wg st + 1, engines := engines st @ [url1]\<rparr>))"

text \<open>Every engine that comes to its end calls \<^verbatim>\<open>wg.Done()\<close> once.\<close>

definition Done_engines :: "(URL \<Rightarrow> bool) \<Rightarrow> process \<Rightarrow> process" where
  "Done_engines ends st = st\<lparr>wg := wg st - length (filter ends (engines st))\<rparr>"

text \<open>\<^verbatim>\<open>wg.Wait()\<close> returns when the counter is zero and not before.\<close>

definition Crawl :: "neturl \<Rightarrow> (URL \<Rightarrow> bool) \<Rightarrow> string list \<Rightarrow> ending \<times> process" where
  "Crawl L ends URLs =
     (case seeds L URLs \<lparr>logged = [], engines = [], wg = 0\<rparr> of
        (Some code, st) \<Rightarrow> (Exit code, st)
      | (None, st) \<Rightarrow>
          let st1 = Done_engines ends st
          in if wg st1 = 0 then (Return, st1\<lparr>logged := logged st1 @ [''Crawling done'']\<rparr>)
             else (Blocked, st1))"

section \<open>An instance of net/url for the examples\<close>

text \<open>
  The examples below need a concrete \<^verbatim>\<open>net/url\<close>. This one follows the package on plain
  URLs (a scheme, a host with an optional port, a path, a query, a fragment; no user
  information, no escapes, no opaque part, no dot segments): \<^verbatim>\<open>Parse\<close> fails with
  \<^verbatim>\<open>missing protocol scheme\<close> on a string that starts with a colon.
\<close>

definition scheme_char :: "char \<Rightarrow> bool" where
  "scheme_char c =
     (c \<in> set ''abcdefghijklmnopqrstuvwxyzABCDEFGHIJKLMNOPQRSTUVWXYZ0123456789+-.'')"

definition example_Parse :: "string \<Rightarrow> error + URL" where
  "example_Parse rawURL =
     (let beforeFrag = takeWhile (\<lambda>c. c \<noteq> CHR ''#'') rawURL;
          frag = drop 1 (dropWhile (\<lambda>c. c \<noteq> CHR ''#'') rawURL);
          beforeQuery = takeWhile (\<lambda>c. c \<noteq> CHR ''?'') beforeFrag;
          query = drop 1 (dropWhile (\<lambda>c. c \<noteq> CHR ''?'') beforeFrag);
          name = takeWhile scheme_char beforeQuery;
          after = dropWhile scheme_char beforeQuery
      in if take 1 beforeQuery = '':'' then Inl ''missing protocol scheme''
         else
           let (scheme, rest) =
                 (if name \<noteq> [] \<and> take 1 after = '':'' then (name, drop 1 after)
                  else ([], beforeQuery))
           in if take 2 rest = ''//''
              then Inr \<lparr>Scheme = scheme,
                        Host = takeWhile (\<lambda>c. c \<noteq> CHR ''/'') (drop 2 rest),
                        Path = dropWhile (\<lambda>c. c \<noteq> CHR ''/'') (drop 2 rest),
                        RawQuery = query, Fragment = frag\<rparr>
              else Inr \<lparr>Scheme = scheme, Host = [], Path = rest,
                        RawQuery = query, Fragment = frag\<rparr>)"

definition example_String :: "URL \<Rightarrow> string" where
  "example_String u =
     (if Scheme u = [] then [] else Scheme u @ '':'') @
     (if Host u = [] then [] else ''//'' @ Host u) @ Path u @
     (if RawQuery u = [] then [] else ''?'' @ RawQuery u) @
     (if Fragment u = [] then [] else ''#'' @ Fragment u)"

definition example_ResolveReference :: "URL \<Rightarrow> URL \<Rightarrow> URL" where
  "example_ResolveReference b ref =
     (if \<not> (Scheme ref = [] \<and> Host ref = [])
      then ref\<lparr>Scheme := (if Scheme ref = [] then Scheme b else Scheme ref)\<rparr>
      else if take 1 (Path ref) = ''/''
      then b\<lparr>Path := Path ref, RawQuery := RawQuery ref, Fragment := Fragment ref\<rparr>
      else b\<lparr>Path := rev (dropWhile (\<lambda>c. c \<noteq> CHR ''/'') (rev (Path b))) @
                       (if Path b = [] then ''/'' else []) @ Path ref,
             RawQuery := RawQuery ref, Fragment := Fragment ref\<rparr>)"

definition example_neturl :: neturl where
  "example_neturl =
     \<lparr>url_Parse = example_Parse,
      url_String = example_String,
      url_Hostname = (\<lambda>u. takeWhile (\<lambda>c. c \<noteq> CHR '':'') (Host u)),
      url_RequestURI = (\<lambda>u. (if Path u = [] then ''/'' else Path u) @
                              (if RawQuery u = [] then [] else ''?'' @ RawQuery u)),
      url_ResolveReference = example_ResolveReference\<rparr>"

text \<open>
  A robots.txt, \<^verbatim>\<open>FromResponse\<close> on the responses of the examples, a fetcher and a base
  domain. The robots.txt has one group, for the agent \<^verbatim>\<open>bot\<close>, with \<^verbatim>\<open>/private\<close> disallowed
  and a crawl delay of two seconds. \<^verbatim>\<open>FromResponse\<close> parses the body of a response with a
  status from 200 to 299 (a body it does not know is read as one without groups, as the
  package reads text that holds no directive), gives data without groups for a status
  from 400 to 599, and fails with \<^verbatim>\<open>Unexpected status\<close> for any other (the message, which
  names the status, is cut short). The fetcher answers for three hosts and fails to
  connect to any other.
\<close>

definition example_Group :: Group where
  "example_Group = \<lparr>Test = (\<lambda>p. take 8 p \<noteq> ''/private''), Group_CrawlDelay = 2000000000\<rparr>"

definition example_robots_txt :: string where
  "example_robots_txt =
     ''User-agent: bot'' @ [CHR 0x0A] @ ''Disallow: /private'' @ [CHR 0x0A] @ ''Crawl-delay: 2''"

definition example_robotstxt :: robotstxt where
  "example_robotstxt res =
     (if 200 \<le> StatusCode res \<and> StatusCode res < 300
      then (if Body res = example_robots_txt then Inr \<lparr>groups = [(''bot'', example_Group)]\<rparr>
            else Inr \<lparr>groups = []\<rparr>)
      else if 400 \<le> StatusCode res \<and> StatusCode res < 600 then Inr \<lparr>groups = []\<rparr>
      else Inl ''Unexpected status'')"

definition example_Fetch :: Fetch where
  "example_Fetch target =
     (if target = ''http://example.com/robots.txt''
      then (5000000, Inr \<lparr>StatusCode = 200, Status = ''200 OK'', Body = example_robots_txt\<rparr>)
      else if target = ''http://absent.test/robots.txt''
      then (5000000, Inr \<lparr>StatusCode = 404, Status = ''404 Not Found'', Body = []\<rparr>)
      else if target = ''http://unchanged.test/robots.txt''
      then (5000000, Inr \<lparr>StatusCode = 304, Status = ''304 Not Modified'', Body = []\<rparr>)
      else (5000000, Inl ''connection refused''))"

definition example_base :: URL where
  "example_base = \<lparr>Scheme = ''http'', Host = ''example.com'', Path = [], RawQuery = [], Fragment = []\<rparr>"

definition example_rules :: CrawlingRules where
  "example_rules = NewCrawlingRules example_base newMemoryCache 0"

text \<open>
  The group of a robots.txt with the one rule \<^verbatim>\<open>Disallow: /a?x=\<close>: its \<^verbatim>\<open>Test\<close> refuses what
  starts with \<^verbatim>\<open>/a?x=\<close> and accepts the rest, \<^verbatim>\<open>/a\<close> included.
\<close>

definition example_query_Group :: Group where
  "example_query_Group = \<lparr>Test = (\<lambda>p. take 5 p \<noteq> ''/a?x=''), Group_CrawlDelay = 0\<rparr>"

text \<open>
  The page of the repository's tests (\<^verbatim>\<open>resourceMock\<close>) as its elements in document order,
  an HTML parser that knows it, an HTTP client that serves it at \<^verbatim>\<open>/foo/bar\<close> and answers
  404 elsewhere, and a fetcher with a fresh \<^verbatim>\<open>GoqueryParser\<close>.
\<close>

definition example_page :: Document where
  "example_page =
     [\<lparr>Data = ''link'', Attr = [(''rel'', ''canonical''), (''href'', ''https://example.com/sample-page/'')]\<rparr>,
      \<lparr>Data = ''link'', Attr = [(''rel'', ''canonical''), (''href'', ''/sample-page/'')]\<rparr>,
      \<lparr>Data = ''a'', Attr = [(''href'', ''foo/bar'')]\<rparr>,
      \<lparr>Data = ''img'', Attr = [(''src'', ''/baz.png'')]\<rparr>,
      \<lparr>Data = ''img'', Attr = [(''src'', ''/stonk'')]\<rparr>,
      \<lparr>Data = ''a'', Attr = [(''href'', ''foo/bar'')]\<rparr>]"

definition example_goquery :: goquery where
  "example_goquery reader = (if reader = ''<page>'' then Inr example_page else Inr [])"

definition example_http :: http where
  "example_http =
     \<lparr>NewRequest = (\<lambda>url. None),
      Do = (\<lambda>agent url.
              if url = ''http://127.0.0.1:8787/foo/bar''
              then (7000000, Inr \<lparr>StatusCode = 200, Status = ''200 OK'', Body = ''<page>''\<rparr>)
              else (3000000, Inr \<lparr>StatusCode = 404, Status = ''404 Not Found'', Body = []\<rparr>))\<rparr>"

definition example_fetcher :: "GoqueryParser stdHttpFetcher" where
  "example_fetcher =
     \<lparr>userAgent = ''test-agent'',
      parser = Some \<lparr>Parser_Parse = Parse example_neturl example_goquery,
                     Parser_state = NewGoqueryParser\<rparr>\<rparr>"

text \<open>For the orchestrator: every engine comes to its end but that of \<^verbatim>\<open>stuck.test\<close>.\<close>

definition example_ends :: "URL \<Rightarrow> bool" where
  "example_ends url = (Host url \<noteq> ''stuck.test'')"

section \<open>Properties of the visited set\<close>

lemma Contains_Set_same: "Contains namespace key (Set namespace key c)"
  by (simp add: Contains_def Set_def Let_def split: option.splits)

lemma Contains_Set_mono: "Contains ns k c \<Longrightarrow> Contains ns k (Set namespace key c)"
  by (auto simp: Contains_def Set_def Let_def split: option.splits)

lemma Contains_SetAll_mono: "Contains ns k c \<Longrightarrow> Contains ns k (SetAll ops c)"
proof (induction ops arbitrary: c)
  case Nil
  then show ?case by simp
next
  case (Cons op ops)
  obtain namespace key where op: "op = (namespace, key)"
    by (cases op)
  from Cons.prems have "Contains ns k (Set namespace key c)"
    by (rule Contains_Set_mono)
  then show ?case
    using Cons.IH op by simp
qed

lemma Set_idem: "Set namespace key (Set namespace key c) = Set namespace key c"
  by (simp add: Set_def Let_def split: option.splits)

lemma Set_other_namespace:
  "namespace \<noteq> ns \<Longrightarrow> cache_map (Set namespace key c) ns = cache_map c ns"
  by (simp add: Set_def Let_def split: option.splits)

lemma SetAll_untouched_namespace:
  "ns \<notin> fst ` set ops \<Longrightarrow> cache_map (SetAll ops c) ns = cache_map c ns"
proof (induction ops arbitrary: c)
  case Nil
  then show ?case by simp
next
  case (Cons op ops)
  obtain namespace key where op: "op = (namespace, key)"
    by (cases op)
  with Cons.prems have ne: "namespace \<noteq> ns" and rest: "ns \<notin> fst ` set ops"
    by auto
  have "cache_map (SetAll ops (Set namespace key c)) ns = cache_map (Set namespace key c) ns"
    using rest by (rule Cons.IH)
  also have "\<dots> = cache_map c ns"
    using ne by (rule Set_other_namespace)
  finally show ?case
    using op by simp
qed

text \<open>
  C8. Once \<^verbatim>\<open>Set(ns, k)\<close> has returned, \<^verbatim>\<open>Contains(ns, k)\<close> is true, also after any
  further \<^verbatim>\<open>Set\<close> calls; a repeated \<^verbatim>\<open>Set(ns, k)\<close> leaves the cache as the first one
  made it; and on a cache built from \<^verbatim>\<open>newMemoryCache\<close> by \<^verbatim>\<open>Set\<close> calls none of which
  names the namespace \<open>ns'\<close>, \<^verbatim>\<open>Contains(ns', k')\<close> is false for every key. \<^verbatim>\<open>Set\<close> has no
  failing branch: it is a total function of the cache.
\<close>

theorem memoryCache_Set_Contains:
  "Contains ns k (SetAll later (Set ns k c)) \<and>
   Contains ns k (SetAll later (Set ns k (Set ns k c))) \<and>
   Set ns k (Set ns k c) = Set ns k c \<and>
   (ns' \<notin> fst ` set ops \<longrightarrow> \<not> Contains ns' k' (SetAll ops newMemoryCache))"
proof (intro conjI impI)
  show "Contains ns k (SetAll later (Set ns k c))"
    by (rule Contains_SetAll_mono) (rule Contains_Set_same)
  show "Contains ns k (SetAll later (Set ns k (Set ns k c)))"
    by (rule Contains_SetAll_mono) (rule Contains_Set_same)
  show "Set ns k (Set ns k c) = Set ns k c"
    by (rule Set_idem)
next
  assume "ns' \<notin> fst ` set ops"
  then have "cache_map (SetAll ops newMemoryCache) ns' = cache_map newMemoryCache ns'"
    by (rule SetAll_untouched_namespace)
  then show "\<not> Contains ns' k' (SetAll ops newMemoryCache)"
    by (simp add: Contains_def newMemoryCache_def)
qed

text \<open>
  The tests \<^verbatim>\<open>TestCacheSet\<close> and \<^verbatim>\<open>TestCacheContains\<close>, with a second namespace that
  is never set.
\<close>

theorem memoryCache_Set_Contains_witness:
  "Contains ''test'' ''hello'' (SetAll [(''test'', ''world'')] (Set ''test'' ''hello'' newMemoryCache)) \<and>
   Set ''test'' ''hello'' (Set ''test'' ''hello'' newMemoryCache) = Set ''test'' ''hello'' newMemoryCache \<and>
   ''other'' \<notin> fst ` set [(''test'', ''hello''), (''test'', ''world'')] \<and>
   \<not> Contains ''other'' ''hello'' (SetAll [(''test'', ''hello''), (''test'', ''world'')] newMemoryCache)"
proof -
  have h: "''other'' \<notin> fst ` set [(''test'', ''hello''), (''test'', ''world'')]"
    by simp
  show ?thesis
    using h memoryCache_Set_Contains
      [of "''test''" "''hello''" "[(''test'', ''world'')]" newMemoryCache
          "''other''" "[(''test'', ''hello''), (''test'', ''world'')]" "''hello''"]
    by blast
qed

section \<open>Properties of CrawlingRules\<close>

lemma Allowed_records:
  "Contains (url_String L (baseDomain r)) (url_String L u) (cache (snd (Allowed L u r)))"
  by (simp add: Allowed_def Let_def Contains_Set_same)

lemma Allowed_visited:
  "Contains (url_String L (baseDomain r)) (url_String L u) (cache r) \<Longrightarrow> Allowed L u r = (False, r)"
  by (simp add: Allowed_def)

lemma RUnlock_RLock: "RUnlock (RLock m) = m"
  by (simp add: RUnlock_def RLock_def)

lemma CrawlDelay_state: "snd (CrawlDelay src r) = r"
  by (simp add: CrawlDelay_def Let_def RUnlock_RLock)

lemma GetRobotsTxtGroup_frame:
  "GetRobotsTxtGroup L R f ua domain r = Inr (b, r') \<Longrightarrow>
     baseDomain r' = baseDomain r \<and> cache r' = cache r \<and> fixedDelay r' = fixedDelay r \<and>
     lastDelay r' = lastDelay r \<and> rwMutex r' = rwMutex r"
  by (auto simp: GetRobotsTxtGroup_def Let_def split: sum.splits if_splits)

lemma perform_baseDomain: "baseDomain (perform L op r) = baseDomain r"
proof (cases op)
  case (OpAllowed u)
  then show ?thesis by (simp add: Allowed_def Let_def)
next
  case (OpCrawlDelay src)
  then show ?thesis by (simp add: CrawlDelay_state)
next
  case (OpUpdateLastDelay t)
  then show ?thesis by (simp add: UpdateLastDelay_def Let_def)
next
  case (OpGetRobotsTxtGroup R f ua domain)
  then show ?thesis
    by (auto split: sum.splits dest: GetRobotsTxtGroup_frame)
qed

lemma perform_Contains_mono:
  assumes "Contains ns k (cache r)"
  shows "Contains ns k (cache (perform L op r))"
proof (cases op)
  case (OpAllowed u)
  with assms show ?thesis by (simp add: Allowed_def Let_def Contains_Set_mono)
next
  case (OpCrawlDelay src)
  with assms show ?thesis by (simp add: CrawlDelay_state)
next
  case (OpUpdateLastDelay t)
  with assms show ?thesis by (simp add: UpdateLastDelay_def Let_def)
next
  case (OpGetRobotsTxtGroup R f ua domain)
  with assms show ?thesis
    by (auto split: sum.splits dest: GetRobotsTxtGroup_frame)
qed

lemma performAll_visited:
  "Contains (url_String L (baseDomain r)) k (cache r) \<Longrightarrow>
   Contains (url_String L (baseDomain (performAll L ops r))) k (cache (performAll L ops r))"
proof (induction ops arbitrary: r)
  case Nil
  then show ?case by simp
next
  case (Cons op ops)
  have "Contains (url_String L (baseDomain (perform L op r))) k (cache (perform L op r))"
    using Cons.prems by (simp add: perform_baseDomain perform_Contains_mono)
  then show ?case
    using Cons.IH by simp
qed

text \<open>
  C2. After a call \<^verbatim>\<open>Allowed(u)\<close>, whatever it returned, \<open>u\<close> is in the visited set under
  the namespace of the base domain; and after any further operations on the same
  \<^verbatim>\<open>CrawlingRules\<close> (calls of \<^verbatim>\<open>Allowed\<close> on any URLs, \<^verbatim>\<open>CrawlDelay\<close>, \<^verbatim>\<open>UpdateLastDelay\<close>,
  \<^verbatim>\<open>GetRobotsTxtGroup\<close>), \<^verbatim>\<open>Allowed(u)\<close> returns false. The first call is on an arbitrary
  state, so it covers the calls that returned false for the robots rules or for the
  domain.
\<close>

theorem Allowed_consumes_the_URL:
  "Contains (url_String L (baseDomain r)) (url_String L u) (cache (snd (Allowed L u r))) \<and>
   \<not> fst (Allowed L u (performAll L ops (snd (Allowed L u r))))"
proof
  show rec: "Contains (url_String L (baseDomain r)) (url_String L u) (cache (snd (Allowed L u r)))"
    by (rule Allowed_records)
  have "baseDomain (snd (Allowed L u r)) = baseDomain r"
    by (simp add: Allowed_def Let_def)
  with rec have "Contains (url_String L (baseDomain (snd (Allowed L u r)))) (url_String L u)
      (cache (snd (Allowed L u r)))"
    by simp
  then have "Contains (url_String L (baseDomain (performAll L ops (snd (Allowed L u r)))))
      (url_String L u) (cache (performAll L ops (snd (Allowed L u r))))"
    by (rule performAll_visited)
  then show "\<not> fst (Allowed L u (performAll L ops (snd (Allowed L u r))))"
    by (simp add: Allowed_visited)
qed

text \<open>
  C3, as the claim states it, fails, with the path and the host of the URL read as its
  fields. Under the rule \<^verbatim>\<open>Disallow: /a?x=\<close> the link \<^verbatim>\<open>http://example.com/a?x=1\<close> has a path,
  \<^verbatim>\<open>/a\<close>, that the robots group accepts and the host of the base domain, yet \<^verbatim>\<open>Allowed\<close> is
  false: the group is asked about the request URI, \<^verbatim>\<open>/a?x=1\<close>. And the link
  \<^verbatim>\<open>http://example.com:8080/a\<close> has a host that is neither that of the base domain nor
  empty, yet \<^verbatim>\<open>Allowed\<close> is true: the host names are compared, without their ports.
\<close>

theorem Allowed_path_and_host_counterexample:
  "\<not> Contains (url_String example_neturl
         (baseDomain (example_rules\<lparr>robotsGroup := Some example_query_Group\<rparr>)))
       (url_String example_neturl (example_base\<lparr>Path := ''/a'', RawQuery := ''x=1''\<rparr>))
       (cache (example_rules\<lparr>robotsGroup := Some example_query_Group\<rparr>)) \<and>
   Test example_query_Group (Path (example_base\<lparr>Path := ''/a'', RawQuery := ''x=1''\<rparr>)) \<and>
   Host (example_base\<lparr>Path := ''/a'', RawQuery := ''x=1''\<rparr>)
     = Host (baseDomain (example_rules\<lparr>robotsGroup := Some example_query_Group\<rparr>)) \<and>
   fst (Allowed example_neturl (example_base\<lparr>Path := ''/a'', RawQuery := ''x=1''\<rparr>)
          (example_rules\<lparr>robotsGroup := Some example_query_Group\<rparr>)) = False \<and>
   \<not> Contains (url_String example_neturl (baseDomain example_rules))
       (url_String example_neturl (example_base\<lparr>Host := ''example.com:8080'', Path := ''/a''\<rparr>))
       (cache example_rules) \<and>
   robotsGroup example_rules = None \<and>
   Host (example_base\<lparr>Host := ''example.com:8080'', Path := ''/a''\<rparr>)
     \<noteq> Host (baseDomain example_rules) \<and>
   Host (example_base\<lparr>Host := ''example.com:8080'', Path := ''/a''\<rparr>) \<noteq> [] \<and>
   fst (Allowed example_neturl (example_base\<lparr>Host := ''example.com:8080'', Path := ''/a''\<rparr>)
          example_rules) = True"
  by (simp add: Allowed_def Let_def subdomain_def Contains_def example_rules_def example_base_def
      NewCrawlingRules_def newMemoryCache_def example_neturl_def example_query_Group_def)

text \<open>
  C3, amended. For a URL \<open>u\<close> that is not in the visited set, \<^verbatim>\<open>Allowed(u)\<close> is true exactly
  when the robots group is unset or its \<^verbatim>\<open>Test\<close> accepts the request URI of \<open>u\<close>, which is
  what \<^verbatim>\<open>url.RequestURI()\<close> gives, the path with the query; and the host name of \<open>u\<close>, which
  is what \<^verbatim>\<open>url.Hostname()\<close> gives, the host without the port, is that of the base domain
  or is empty. A host name that is neither, a subdomain's for one, makes it false.
\<close>

theorem Allowed_iff_robots_and_in_domain:
  "\<not> Contains (url_String L (baseDomain r)) (url_String L u) (cache r) \<Longrightarrow>
   fst (Allowed L u r) =
     ((robotsGroup r = None \<or> (\<exists>g. robotsGroup r = Some g \<and> Test g (url_RequestURI L u))) \<and>
      (url_Hostname L u = url_Hostname L (baseDomain r) \<or> url_Hostname L u = []))"
  by (auto simp: Allowed_def Let_def subdomain_def split: option.splits)

text \<open>
  The base domain \<^verbatim>\<open>http://example.com\<close>, nothing visited. Without a robots group the link
  \<^verbatim>\<open>http://sub.example.com/a\<close> on a subdomain is refused and the link
  \<^verbatim>\<open>http://example.com:8080/a\<close> is allowed. Under the rule \<^verbatim>\<open>Disallow: /a?x=\<close> the link
  \<^verbatim>\<open>http://example.com/a?x=1\<close> is refused and the link \<^verbatim>\<open>http://example.com/a\<close> is allowed.
\<close>

theorem Allowed_iff_robots_and_in_domain_witness:
  "\<not> Contains (url_String example_neturl (baseDomain example_rules))
       (url_String example_neturl (example_base\<lparr>Host := ''sub.example.com'', Path := ''/a''\<rparr>))
       (cache example_rules) \<and>
   fst (Allowed example_neturl (example_base\<lparr>Host := ''sub.example.com'', Path := ''/a''\<rparr>)
          example_rules) = False \<and>
   fst (Allowed example_neturl (example_base\<lparr>Host := ''example.com:8080'', Path := ''/a''\<rparr>)
          example_rules) = True \<and>
   fst (Allowed example_neturl (example_base\<lparr>Path := ''/a'', RawQuery := ''x=1''\<rparr>)
          (example_rules\<lparr>robotsGroup := Some example_query_Group\<rparr>)) = False \<and>
   fst (Allowed example_neturl (example_base\<lparr>Path := ''/a''\<rparr>)
          (example_rules\<lparr>robotsGroup := Some example_query_Group\<rparr>)) = True"
proof -
  let ?sub = "example_base\<lparr>Host := ''sub.example.com'', Path := ''/a''\<rparr>"
  let ?same = "example_base\<lparr>Host := ''example.com:8080'', Path := ''/a''\<rparr>"
  let ?query = "example_base\<lparr>Path := ''/a'', RawQuery := ''x=1''\<rparr>"
  let ?plain = "example_base\<lparr>Path := ''/a''\<rparr>"
  let ?ruled = "example_rules\<lparr>robotsGroup := Some example_query_Group\<rparr>"
  have fresh: "\<not> Contains (url_String example_neturl (baseDomain example_rules)) k
      (cache example_rules)" for k
    by (simp add: Contains_def example_rules_def NewCrawlingRules_def newMemoryCache_def)
  have fresh': "\<not> Contains (url_String example_neturl (baseDomain ?ruled)) k (cache ?ruled)" for k
    by (simp add: Contains_def example_rules_def NewCrawlingRules_def newMemoryCache_def)
  have sub: "fst (Allowed example_neturl ?sub example_rules) = False"
    using Allowed_iff_robots_and_in_domain [OF fresh, of ?sub]
    by (simp add: example_rules_def example_base_def NewCrawlingRules_def example_neturl_def)
  have same: "fst (Allowed example_neturl ?same example_rules) = True"
    using Allowed_iff_robots_and_in_domain [OF fresh, of ?same]
    by (simp add: example_rules_def example_base_def NewCrawlingRules_def example_neturl_def)
  have query: "fst (Allowed example_neturl ?query ?ruled) = False"
    using Allowed_iff_robots_and_in_domain [OF fresh', of ?query]
    by (simp add: example_rules_def example_base_def NewCrawlingRules_def example_neturl_def
        example_query_Group_def)
  have plain: "fst (Allowed example_neturl ?plain ?ruled) = True"
    using Allowed_iff_robots_and_in_domain [OF fresh', of ?plain]
    by (simp add: example_rules_def example_base_def NewCrawlingRules_def example_neturl_def
        example_query_Group_def)
  from fresh sub same query plain show ?thesis
    by blast
qed

text \<open>
  C10. \<^verbatim>\<open>CrawlDelay\<close> leaves the \<^verbatim>\<open>CrawlingRules\<close> as it found it: every field, the mutex
  included (the read lock is released by the deferred \<^verbatim>\<open>RUnlock\<close>, also when \<^verbatim>\<open>randDelay\<close>
  panics), for every draw of the random source. The three other operations do change
  the state: there are states that \<^verbatim>\<open>Allowed\<close>, \<^verbatim>\<open>UpdateLastDelay\<close> and
  \<^verbatim>\<open>GetRobotsTxtGroup\<close> leave different from what they found.
\<close>

theorem CrawlDelay_read_only:
  "snd (CrawlDelay src r) = r \<and>
   baseDomain (snd (CrawlDelay src r)) = baseDomain r \<and>
   cache (snd (CrawlDelay src r)) = cache r \<and>
   robotsGroup (snd (CrawlDelay src r)) = robotsGroup r \<and>
   fixedDelay (snd (CrawlDelay src r)) = fixedDelay r \<and>
   lastDelay (snd (CrawlDelay src r)) = lastDelay r \<and>
   (\<exists>L u r0. snd (Allowed L u r0) \<noteq> r0) \<and>
   (\<exists>t r0. UpdateLastDelay t r0 \<noteq> r0) \<and>
   (\<exists>L R f ua domain r0 b r1.
      GetRobotsTxtGroup L R f ua domain r0 = Inr (b, r1) \<and> r1 \<noteq> r0)"
proof -
  have "Contains (url_String example_neturl (baseDomain example_rules))
          (url_String example_neturl example_base)
          (cache (snd (Allowed example_neturl example_base example_rules)))"
    by (rule Allowed_records)
  moreover have "\<not> Contains (url_String example_neturl (baseDomain example_rules))
          (url_String example_neturl example_base) (cache example_rules)"
    by (simp add: Contains_def example_rules_def NewCrawlingRules_def newMemoryCache_def)
  ultimately have "snd (Allowed example_neturl example_base example_rules) \<noteq> example_rules"
    by metis
  then have allowed: "\<exists>L u r0. snd (Allowed L u r0) \<noteq> r0"
    by blast
  have "lastDelay (UpdateLastDelay 2000000000 example_rules) = 4000000000"
    by (simp add: UpdateLastDelay_def Let_def Seconds_def quo_def Second_def float64_of_def
        int64_of_float_def int64_def)
  moreover have "lastDelay example_rules = 0"
    by (simp add: example_rules_def NewCrawlingRules_def)
  ultimately have "UpdateLastDelay 2000000000 example_rules \<noteq> example_rules"
    by (metis zero_neq_numeral)
  then have update: "\<exists>t r0. UpdateLastDelay t r0 \<noteq> r0"
    by blast
  have "FindGroup \<lparr>groups = [(''bot'', example_Group)]\<rparr> ''bot'' = Some example_Group"
    by (simp add: FindGroup_def Let_def ToLower_def)
  then have "GetRobotsTxtGroup example_neturl example_robotstxt example_Fetch ''bot'' example_base
          example_rules = Inr (True, example_rules\<lparr>robotsGroup := Some example_Group\<rparr>)"
    by (simp add: GetRobotsTxtGroup_def Let_def example_neturl_def example_Parse_def
        robotsTxtPath_def example_ResolveReference_def example_String_def example_Fetch_def
        example_base_def example_robotstxt_def)
  moreover have "robotsGroup (example_rules\<lparr>robotsGroup := Some example_Group\<rparr>)
      \<noteq> robotsGroup example_rules"
    by (simp add: example_rules_def NewCrawlingRules_def)
  ultimately have robots: "\<exists>L R f ua domain r0 b r1.
      GetRobotsTxtGroup L R f ua domain r0 = Inr (b, r1) \<and> r1 \<noteq> r0"
    by metis
  show ?thesis
    using allowed update robots by (simp add: CrawlDelay_state)
qed

lemma FindGroup_not_nil: "FindGroup body agent \<noteq> None"
  by (simp add: FindGroup_def Let_def split: prod.splits option.splits)

lemma foldl_no_prefix:
  "\<forall>(a, g) \<in> set gs. \<not> prefix a agent \<or> a = ''*'' \<Longrightarrow>
   foldl (\<lambda>(ret, prefixLen) (a, g).
            if a \<noteq> ''*'' \<and> prefix a agent \<and> length a > prefixLen
            then (Some g, length a) else (ret, prefixLen)) acc gs = acc"
  by (induction gs arbitrary: acc) (auto split: prod.splits)

lemma FindGroup_no_match:
  assumes "matching body agent = []"
  shows "FindGroup body agent = Some emptyGroup"
proof -
  have none: "\<forall>(a, g) \<in> set (groups body). a \<noteq> ''*'' \<and> \<not> prefix a (ToLower agent)"
    using assms by (auto simp: matching_def filter_empty_conv)
  then have "''*'' \<notin> fst ` set (groups body)"
    by force
  then have star: "map_of (groups body) ''*'' = None"
    by (simp add: map_of_eq_None_iff)
  have "\<forall>(a, g) \<in> set (groups body). \<not> prefix a (ToLower agent) \<or> a = ''*''"
    using none by auto
  then show ?thesis
    by (simp add: FindGroup_def Let_def star foldl_no_prefix)
qed

text \<open>
  C6, as the claim states it, fails: the robots.txt of \<^verbatim>\<open>example.com\<close> is fetched and
  parsed, it has the one group \<^verbatim>\<open>bot\<close>, and no group of it matches the agent \<^verbatim>\<open>other\<close>; yet
  \<^verbatim>\<open>GetRobotsTxtGroup\<close> returns true, and stores the empty group that \<^verbatim>\<open>FindGroup\<close> gives
  when nothing matches.
\<close>

theorem GetRobotsTxtGroup_no_match_counterexample:
  "snd (example_Fetch ''http://example.com/robots.txt'')
     = Inr \<lparr>StatusCode = 200, Status = ''200 OK'', Body = example_robots_txt\<rparr> \<and>
   example_robotstxt \<lparr>StatusCode = 200, Status = ''200 OK'', Body = example_robots_txt\<rparr>
     = Inr \<lparr>groups = [(''bot'', example_Group)]\<rparr> \<and>
   matching \<lparr>groups = [(''bot'', example_Group)]\<rparr> ''other'' = [] \<and>
   GetRobotsTxtGroup example_neturl example_robotstxt example_Fetch ''other'' example_base example_rules
     = Inr (True, example_rules\<lparr>robotsGroup := Some emptyGroup\<rparr>)"
proof -
  have nomatch: "matching \<lparr>groups = [(''bot'', example_Group)]\<rparr> ''other'' = []"
    by (simp add: matching_def ToLower_def)
  then have "FindGroup \<lparr>groups = [(''bot'', example_Group)]\<rparr> ''other'' = Some emptyGroup"
    by (rule FindGroup_no_match)
  then have "GetRobotsTxtGroup example_neturl example_robotstxt example_Fetch ''other''
      example_base example_rules = Inr (True, example_rules\<lparr>robotsGroup := Some emptyGroup\<rparr>)"
    by (simp add: GetRobotsTxtGroup_def Let_def example_neturl_def example_Parse_def
        robotsTxtPath_def example_ResolveReference_def example_String_def example_Fetch_def
        example_base_def example_robotstxt_def)
  with nomatch show ?thesis
    by (simp add: example_Fetch_def example_robotstxt_def)
qed

text \<open>
  C6, amended. With the reference \<open>u\<close> that \<^verbatim>\<open>url.Parse\<close> gives for \<^verbatim>\<open>/robots.txt\<close> and the
  answer \<open>res\<close> of the fetcher for the resolved target: \<^verbatim>\<open>GetRobotsTxtGroup\<close> returns false
  and leaves the \<^verbatim>\<open>CrawlingRules\<close> as it was (so an unset robots group stays unset) on a
  transport error, on the status 404 and on an error of \<^verbatim>\<open>robotstxt.FromResponse\<close>. On a
  robots.txt that is fetched and parsed it stores the group that \<^verbatim>\<open>FindGroup\<close> selects for
  the user agent, which is never nil, changes nothing else, and returns true: also when
  no group matches the agent, where the group stored is the empty one.
\<close>

theorem GetRobotsTxtGroup_outcomes:
  assumes "url_Parse L robotsTxtPath = Inr u"
    and "snd (f (url_String L (url_ResolveReference L domain u))) = res"
  shows
    "(res = Inl err \<longrightarrow> GetRobotsTxtGroup L R f ua domain r = Inr (False, r)) \<and>
     (res = Inr resp \<and> StatusCode resp = 404 \<longrightarrow>
        GetRobotsTxtGroup L R f ua domain r = Inr (False, r)) \<and>
     (res = Inr resp \<and> StatusCode resp \<noteq> 404 \<and> R resp = Inl perr \<longrightarrow>
        GetRobotsTxtGroup L R f ua domain r = Inr (False, r)) \<and>
     (res = Inr resp \<and> StatusCode resp \<noteq> 404 \<and> R resp = Inr body \<longrightarrow>
        (\<exists>g. FindGroup body ua = Some g \<and>
             GetRobotsTxtGroup L R f ua domain r = Inr (True, r\<lparr>robotsGroup := Some g\<rparr>))) \<and>
     (res = Inr resp \<and> StatusCode resp \<noteq> 404 \<and> R resp = Inr body \<and> matching body ua = [] \<longrightarrow>
        GetRobotsTxtGroup L R f ua domain r = Inr (True, r\<lparr>robotsGroup := Some emptyGroup\<rparr>))"
proof -
  have found: "\<exists>g. FindGroup body ua = Some g"
    using FindGroup_not_nil [of body ua] by blast
  have empty: "matching body ua = [] \<Longrightarrow> FindGroup body ua = Some emptyGroup"
    by (rule FindGroup_no_match)
  show ?thesis
    using assms found empty by (auto simp: GetRobotsTxtGroup_def Let_def)
qed

text \<open>
  The robots.txt of \<^verbatim>\<open>example.com\<close> has a group for the agent \<^verbatim>\<open>bot\<close> and none that matches
  \<^verbatim>\<open>other\<close>; \<^verbatim>\<open>absent.test\<close> answers 404; \<^verbatim>\<open>unchanged.test\<close> answers 304, which
  \<^verbatim>\<open>FromResponse\<close> refuses; nothing answers at \<^verbatim>\<open>nowhere.test\<close>.
\<close>

theorem GetRobotsTxtGroup_outcomes_witness:
  "GetRobotsTxtGroup example_neturl example_robotstxt example_Fetch ''bot'' example_base example_rules
     = Inr (True, example_rules\<lparr>robotsGroup := Some example_Group\<rparr>) \<and>
   GetRobotsTxtGroup example_neturl example_robotstxt example_Fetch ''other'' example_base example_rules
     = Inr (True, example_rules\<lparr>robotsGroup := Some emptyGroup\<rparr>) \<and>
   GetRobotsTxtGroup example_neturl example_robotstxt example_Fetch ''bot''
       (example_base\<lparr>Host := ''absent.test''\<rparr>) example_rules
     = Inr (False, example_rules) \<and>
   GetRobotsTxtGroup example_neturl example_robotstxt example_Fetch ''bot''
       (example_base\<lparr>Host := ''unchanged.test''\<rparr>) example_rules
     = Inr (False, example_rules) \<and>
   GetRobotsTxtGroup example_neturl example_robotstxt example_Fetch ''bot''
       (example_base\<lparr>Host := ''nowhere.test''\<rparr>) example_rules
     = Inr (False, example_rules)"
proof -
  let ?ref = "\<lparr>Scheme = [], Host = [], Path = ''/robots.txt'', RawQuery = [], Fragment = []\<rparr>"
  let ?ok = "\<lparr>StatusCode = 200, Status = ''200 OK'', Body = example_robots_txt\<rparr>"
  let ?missing = "\<lparr>StatusCode = 404, Status = ''404 Not Found'', Body = []\<rparr>"
  let ?unchanged = "\<lparr>StatusCode = 304, Status = ''304 Not Modified'', Body = []\<rparr>"
  let ?data = "\<lparr>groups = [(''bot'', example_Group)]\<rparr>"
  have parse: "url_Parse example_neturl robotsTxtPath = Inr ?ref"
    by (simp add: example_neturl_def example_Parse_def robotsTxtPath_def)
  have fetch: "snd (example_Fetch (url_String example_neturl
      (url_ResolveReference example_neturl example_base ?ref))) = Inr ?ok"
    by (simp add: example_neturl_def example_ResolveReference_def example_String_def
        example_Fetch_def example_base_def)
  have fetch404: "snd (example_Fetch (url_String example_neturl
      (url_ResolveReference example_neturl (example_base\<lparr>Host := ''absent.test''\<rparr>) ?ref)))
      = Inr ?missing"
    by (simp add: example_neturl_def example_ResolveReference_def example_String_def
        example_Fetch_def example_base_def)
  have fetch304: "snd (example_Fetch (url_String example_neturl
      (url_ResolveReference example_neturl (example_base\<lparr>Host := ''unchanged.test''\<rparr>) ?ref)))
      = Inr ?unchanged"
    by (simp add: example_neturl_def example_ResolveReference_def example_String_def
        example_Fetch_def example_base_def)
  have refused: "snd (example_Fetch (url_String example_neturl
      (url_ResolveReference example_neturl (example_base\<lparr>Host := ''nowhere.test''\<rparr>) ?ref)))
      = Inl ''connection refused''"
    by (simp add: example_neturl_def example_ResolveReference_def example_String_def
        example_Fetch_def example_base_def)
  have parsed: "example_robotstxt ?ok = Inr ?data"
    by (simp add: example_robotstxt_def)
  have unexpected: "example_robotstxt ?unchanged = Inl ''Unexpected status''"
    by (simp add: example_robotstxt_def)
  have bot: "FindGroup ?data ''bot'' = Some example_Group"
    by (simp add: FindGroup_def Let_def ToLower_def)
  have nomatch: "matching ?data ''other'' = []"
    by (simp add: matching_def ToLower_def)
  have found: "GetRobotsTxtGroup example_neturl example_robotstxt example_Fetch ''bot''
      example_base example_rules = Inr (True, example_rules\<lparr>robotsGroup := Some example_Group\<rparr>)"
    using GetRobotsTxtGroup_outcomes [where L = example_neturl and u = ?ref and f = example_Fetch
        and domain = example_base and res = "Inr ?ok" and resp = ?ok and R = example_robotstxt
        and body = ?data and ua = "''bot''" and r = example_rules] parse fetch parsed bot
    by simp
  have none: "GetRobotsTxtGroup example_neturl example_robotstxt example_Fetch ''other''
      example_base example_rules = Inr (True, example_rules\<lparr>robotsGroup := Some emptyGroup\<rparr>)"
    using GetRobotsTxtGroup_outcomes [where L = example_neturl and u = ?ref and f = example_Fetch
        and domain = example_base and res = "Inr ?ok" and resp = ?ok and R = example_robotstxt
        and body = ?data and ua = "''other''" and r = example_rules] parse fetch parsed nomatch
    by simp
  have absent: "GetRobotsTxtGroup example_neturl example_robotstxt example_Fetch ''bot''
      (example_base\<lparr>Host := ''absent.test''\<rparr>) example_rules = Inr (False, example_rules)"
    using GetRobotsTxtGroup_outcomes [where L = example_neturl and u = ?ref and f = example_Fetch
        and domain = "example_base\<lparr>Host := ''absent.test''\<rparr>" and res = "Inr ?missing"
        and resp = ?missing and R = example_robotstxt and ua = "''bot''" and r = example_rules]
      parse fetch404
    by simp
  have unchanged: "GetRobotsTxtGroup example_neturl example_robotstxt example_Fetch ''bot''
      (example_base\<lparr>Host := ''unchanged.test''\<rparr>) example_rules = Inr (False, example_rules)"
    using GetRobotsTxtGroup_outcomes [where L = example_neturl and u = ?ref and f = example_Fetch
        and domain = "example_base\<lparr>Host := ''unchanged.test''\<rparr>" and res = "Inr ?unchanged"
        and resp = ?unchanged and R = example_robotstxt and perr = "''Unexpected status''"
        and ua = "''bot''" and r = example_rules]
      parse fetch304 unexpected
    by simp
  have nowhere: "GetRobotsTxtGroup example_neturl example_robotstxt example_Fetch ''bot''
      (example_base\<lparr>Host := ''nowhere.test''\<rparr>) example_rules = Inr (False, example_rules)"
    using GetRobotsTxtGroup_outcomes [where L = example_neturl and u = ?ref and f = example_Fetch
        and domain = "example_base\<lparr>Host := ''nowhere.test''\<rparr>"
        and res = "Inl ''connection refused''" and err = "''connection refused''"
        and R = example_robotstxt and ua = "''bot''" and r = example_rules]
      parse refused
    by simp
  from found none absent unchanged nowhere show ?thesis
    by simp
qed

section \<open>The delays\<close>

lemma int64_id: "- (2 ^ 63) \<le> x \<Longrightarrow> x < 2 ^ 63 \<Longrightarrow> int64 x = x"
  by (simp add: int64_def)

lemma int64_of_float_of_int: "int64_of_float (of_int n) = n"
  by (simp add: int64_of_float_def)

lemma randDelay_zero: "randDelay src 0 = Inr 0"
  by (simp add: randDelay_def)

text \<open>
  What \<^verbatim>\<open>randDelay\<close> computes for a positive argument, within the millisecond counts
  of a \<^verbatim>\<open>Duration\<close>: a number from \<open>1.5 * v\<close> (rounded down) up to, and not including,
  that plus \<open>v\<close>.
\<close>

lemma int64_of_float64_of: "int64_of_float (float64_of n) = n"
  by (simp add: float64_of_def int64_of_float_def)

lemma int64_of_three_halves:
  assumes "0 \<le> v"
  shows "int64_of_float (3 * float64_of v / 2) = (3 * v) div 2"
proof -
  have "\<lfloor>(of_int (3 * v) :: rat) / of_int 2\<rfloor> = (3 * v) div 2"
    by (rule floor_divide_of_int_eq)
  moreover have "3 * float64_of v / 2 = of_int (3 * v) / of_int 2"
    by (simp add: float64_of_def)
  moreover have "(0 :: rat) \<le> of_int (3 * v) / of_int 2"
    using assms by simp
  ultimately show ?thesis
    by (simp only: int64_of_float_def if_True)
qed

lemma randDelay_positive:
  assumes "0 < v" and "v < 2 ^ 44"
  shows "randDelay src v = Inr (src mod v + (3 * v) div 2)"
proof -
  have "0 \<le> src mod v" and "src mod v < v"
    using assms(1) by simp_all
  moreover have "0 \<le> (3 * v) div 2" and "(3 * v) div 2 \<le> 3 * v"
    using assms(1) by presburger+
  moreover have "v < 17592186044416"
    using assms(2) by simp
  ultimately have "- (2 ^ 63) \<le> src mod v + (3 * v) div 2"
    and "src mod v + (3 * v) div 2 < 2 ^ 63"
    by simp_all
  then have wrap: "int64 (src mod v + (3 * v) div 2) = src mod v + (3 * v) div 2"
    by (rule int64_id)
  show ?thesis
    using assms(1) wrap
    by (simp add: randDelay_def Let_def Int63n_def int64_of_float64_of int64_of_three_halves)
qed

lemma randDelay_range:
  assumes "0 < v" and "v < 2 ^ 44"
  shows "\<exists>d. randDelay src v = Inr d \<and> 3 * v \<le> 2 * d + 1 \<and> 2 * d + 2 \<le> 5 * v"
proof -
  have "0 \<le> src mod v" and "src mod v < v"
    using assms(1) by simp_all
  then show ?thesis
    using randDelay_positive [OF assms, of src] by (intro exI [of _ "src mod v + (3 * v) div 2"]) auto
qed

lemma Milliseconds_times: "Milliseconds (m * Millisecond) = m"
  by (cases "0 \<le> m") (auto simp: Milliseconds_def Millisecond_def quo_def sgn_if)

lemma Milliseconds_bounds:
  "- (2 ^ 63) \<le> d \<Longrightarrow> d < 2 ^ 63 \<Longrightarrow>
   - (2 ^ 63) \<le> Milliseconds d * Millisecond \<and> Milliseconds d * Millisecond < 2 ^ 63"
  by (cases "0 \<le> d") (auto simp: Milliseconds_def Millisecond_def quo_def sgn_if)

lemma int64_Milliseconds:
  "- (2 ^ 63) \<le> d \<Longrightarrow> d < 2 ^ 63 \<Longrightarrow>
   int64 (Milliseconds d * Millisecond) = Milliseconds d * Millisecond"
  using Milliseconds_bounds [of d] by (intro int64_id) simp_all

lemma int64_of_float_max:
  "int64_of_float (max (float64_of a) (float64_of b)) = max a b"
  by (simp add: float64_of_def int64_of_float_def max_def)

text \<open>
  With a fixed delay of zero the random part is zero, and \<^verbatim>\<open>CrawlDelay\<close> is the larger of
  the last delay and the crawl delay of the robots group, both in whole milliseconds.
\<close>

lemma CrawlDelay_fixedDelay_zero:
  assumes "fixedDelay r = 0"
    and "- (2 ^ 63) \<le> lastDelay r" and "lastDelay r < 2 ^ 63"
    and "0 \<le> delay" and "delay < 2 ^ 63"
    and "delay = (case robotsGroup r of Some g \<Rightarrow> Group_CrawlDelay g | None \<Rightarrow> 0)"
  shows "fst (CrawlDelay src r) =
    Inr (max (Milliseconds (lastDelay r)) (Milliseconds delay) * Millisecond)"
proof -
  have nonneg: "0 \<le> Milliseconds delay"
    using assms(4) by (simp add: Milliseconds_def quo_def sgn_if)
  have base: "int64 (Milliseconds delay * Millisecond) = Milliseconds delay * Millisecond"
    using assms(4,5) by (intro int64_Milliseconds) simp_all
  have last: "int64 (Milliseconds (lastDelay r) * Millisecond) = Milliseconds (lastDelay r) * Millisecond"
    using assms(2,3) by (rule int64_Milliseconds)
  have final: "int64 (max (Milliseconds (lastDelay r)) (Milliseconds delay) * Millisecond)
      = max (Milliseconds (lastDelay r)) (Milliseconds delay) * Millisecond"
    using base last by (simp add: max_def)
  have zero: "Milliseconds 0 = 0"
    by (simp add: Milliseconds_def quo_def)
  have wrap0: "int64 0 = 0"
    by (simp add: int64_def)
  have inner: "max 0 (Milliseconds delay) = Milliseconds delay"
    using nonneg by simp
  show ?thesis
    using assms(1)
    by (simp add: CrawlDelay_def Let_def zero randDelay_zero wrap0 int64_of_float_max inner base
        Milliseconds_times final flip: assms(6))
qed

text \<open>
  C1. The documentation (\<^verbatim>\<open>Return a random value between 1.5*value and 0.5*value\<close>, and
  \<^verbatim>\<open>0.5*fixedDelay < value < 1.5*fixedDelay\<close> in \<^verbatim>\<open>CrawlDelay\<close>) and the claim put the random
  part between \<open>0.5 * fixedDelay\<close> and \<open>1.5 * fixedDelay\<close>. \<^verbatim>\<open>randDelay\<close> adds the draw to
  \<^verbatim>\<open>int64(max)\<close> where the lower bound was meant, so it lies between \<open>1.5 * fixedDelay\<close>
  and \<open>2.5 * fixedDelay\<close>: with a fixed delay of 100 ms and the draw 1 it is 151 ms, and so
  is the delay that \<^verbatim>\<open>CrawlDelay\<close> returns when there is no robots group and no last delay.
\<close>

theorem randDelay_above_documented_range:
  "randDelay 1 100 = Inr 151 \<and>
   fst (CrawlDelay 1 (NewCrawlingRules example_base newMemoryCache (100 * Millisecond)))
     = Inr (151 * Millisecond)"
proof -
  have rand: "randDelay 1 100 = Inr 151"
    by (simp add: randDelay_positive)
  have wrap: "int64 (151 * Millisecond) = 151 * Millisecond"
    by (simp add: int64_def Millisecond_def)
  have zero: "Milliseconds 0 = 0"
    by (simp add: Milliseconds_def quo_def)
  have "fst (CrawlDelay 1 (NewCrawlingRules example_base newMemoryCache (100 * Millisecond)))
      = Inr (151 * Millisecond)"
    using rand
    by (simp add: CrawlDelay_def Let_def NewCrawlingRules_def Milliseconds_times zero
        int64_of_float_max wrap)
  with rand show ?thesis
    by simp
qed

text \<open>
  C5. The documentation (\<^verbatim>\<open>max(lastResponseTime^2, delay, robots.txt delay)\<close>, and
  \<^verbatim>\<open>lastResponse time ** 2\<close> in the README) and the claim make the last delay the square of
  the response time in seconds. \<^verbatim>\<open>UpdateLastDelay\<close> converts the square to a
  \<^verbatim>\<open>time.Duration\<close>, an integer, before it multiplies by \<^verbatim>\<open>time.Second\<close>, so the fraction
  of a second is lost: a response time of 1.5 s gives 2 s, not 2.25 s, and one of 0.5 s
  gives no delay at all.
\<close>

theorem UpdateLastDelay_drops_the_fraction:
  "lastDelay (UpdateLastDelay 1500000000 r) = 2 * Second \<and>
   lastDelay (UpdateLastDelay 500000000 r) = 0"
proof -
  have s1: "Seconds 1500000000 = 3 / 2"
    by (simp add: Seconds_def quo_def Second_def float64_of_def)
  have s2: "Seconds 500000000 = 1 / 2"
    by (simp add: Seconds_def quo_def Second_def float64_of_def)
  have f1: "int64_of_float ((3 / 2) ^ 2) = 2"
    by code_simp
  have f2: "int64_of_float ((1 / 2) ^ 2) = 0"
    by code_simp
  have "lastDelay (UpdateLastDelay 1500000000 r) = int64 (int64_of_float ((Seconds 1500000000) ^ 2) * Second)"
    by (simp add: UpdateLastDelay_def Let_def)
  also have "\<dots> = 2 * Second"
    by (simp only: s1 f1) (simp add: int64_def Second_def)
  finally have a: "lastDelay (UpdateLastDelay 1500000000 r) = 2 * Second" .
  have "lastDelay (UpdateLastDelay 500000000 r) = int64 (int64_of_float ((Seconds 500000000) ^ 2) * Second)"
    by (simp add: UpdateLastDelay_def Let_def)
  also have "\<dots> = 0"
    by (simp only: s2 f2) (simp add: int64_def Second_def)
  finally have b: "lastDelay (UpdateLastDelay 500000000 r) = 0" .
  from a b show ?thesis
    by simp
qed

section \<open>Properties of the link extractor\<close>

lemma resolved_Cons:
  "resolved L b (e # es) =
     (case resolveRelativeURL L b (fst (Attr_of e ''href'')) of
        None \<Rightarrow> resolved L b es | Some link \<Rightarrow> link # resolved L b es)"
  unfolding resolved_def by (simp add: List.map_filter_simps)

lemma visit_unresolved:
  "resolveRelativeURL L b (fst (Attr_of e ''href'')) = None \<Longrightarrow>
   visit L b (found, sn) e = (found, sn)"
  by (simp add: visit_def)

lemma visit_marked:
  "resolveRelativeURL L b (fst (Attr_of e ''href'')) = Some link \<Longrightarrow>
   url_String L link \<in> marked sn \<Longrightarrow> visit L b (found, sn) e = (found, sn)"
  by (simp add: visit_def marked_def LoadOrStore_def)

lemma visit_new:
  "resolveRelativeURL L b (fst (Attr_of e ''href'')) = Some link \<Longrightarrow>
   url_String L link \<notin> marked sn \<Longrightarrow>
   visit L b (found, sn) e = (found @ [link], sn(url_String L link \<mapsto> True))"
  by (cases "sn (url_String L link)") (auto simp: visit_def marked_def LoadOrStore_def Store_def)

lemma marked_update: "marked (sn(k \<mapsto> True)) = insert k (marked sn)"
  by (auto simp: marked_def)

text \<open>
  The loop of \<^verbatim>\<open>extractLinks\<close> from any accumulator: it appends links whose strings are
  distinct and were not marked, marks exactly those, and takes them from the resolved
  links in their order, each at its first occurrence.
\<close>

lemma foldl_visit:
  "\<exists>new sn'. foldl (visit L b) (found, sn) es = (found @ new, sn') \<and>
     marked sn' = marked sn \<union> set (map (url_String L) new) \<and>
     set (map (url_String L) new) \<inter> marked sn = {} \<and>
     distinct (map (url_String L) new) \<and>
     subseq new (resolved L b es) \<and>
     map (url_String L) new =
       first_occurrences (filter (\<lambda>k. k \<notin> marked sn) (map (url_String L) (resolved L b es)))"
proof (induction es arbitrary: found sn)
  case Nil
  then show ?case by (simp add: resolved_def List.map_filter_simps)
next
  case (Cons e es)
  show ?case
  proof (cases "resolveRelativeURL L b (fst (Attr_of e ''href''))")
    case None
    then have "foldl (visit L b) (found, sn) (e # es) = foldl (visit L b) (found, sn) es"
      and "resolved L b (e # es) = resolved L b es"
      by (simp_all add: visit_unresolved resolved_Cons)
    then show ?thesis
      using Cons.IH [of found sn] by (simp only:)
  next
    case (Some link)
    show ?thesis
    proof (cases "url_String L link \<in> marked sn")
      case True
      obtain new sn' where new:
        "foldl (visit L b) (found, sn) es = (found @ new, sn')"
        "marked sn' = marked sn \<union> set (map (url_String L) new)"
        "set (map (url_String L) new) \<inter> marked sn = {}"
        "distinct (map (url_String L) new)"
        "subseq new (resolved L b es)"
        "map (url_String L) new =
           first_occurrences (filter (\<lambda>k. k \<notin> marked sn) (map (url_String L) (resolved L b es)))"
        using Cons.IH [of found sn] by blast
      have "foldl (visit L b) (found, sn) (e # es) = (found @ new, sn')"
        using Some True new(1) by (simp add: visit_marked)
      moreover have "subseq new (resolved L b (e # es))"
        using new(5) Some by (auto simp: resolved_Cons)
      moreover have "map (url_String L) new =
          first_occurrences (filter (\<lambda>k. k \<notin> marked sn) (map (url_String L) (resolved L b (e # es))))"
        using new(6) Some True by (simp add: resolved_Cons)
      ultimately show ?thesis
        using new(2,3,4) by blast
    next
      case False
      let ?k = "url_String L link"
      obtain new sn' where new:
        "foldl (visit L b) (found @ [link], sn(?k \<mapsto> True)) es = ((found @ [link]) @ new, sn')"
        "marked sn' = marked (sn(?k \<mapsto> True)) \<union> set (map (url_String L) new)"
        "set (map (url_String L) new) \<inter> marked (sn(?k \<mapsto> True)) = {}"
        "distinct (map (url_String L) new)"
        "subseq new (resolved L b es)"
        "map (url_String L) new =
           first_occurrences (filter (\<lambda>k. k \<notin> marked (sn(?k \<mapsto> True)))
             (map (url_String L) (resolved L b es)))"
        using Cons.IH [of "found @ [link]" "sn(?k \<mapsto> True)"] by blast
      have "foldl (visit L b) (found, sn) (e # es) = (found @ (link # new), sn')"
        using Some False new(1) by (simp add: visit_new)
      moreover have "marked sn' = marked sn \<union> set (map (url_String L) (link # new))"
        using new(2) by (auto simp: marked_update)
      moreover have "set (map (url_String L) (link # new)) \<inter> marked sn = {}"
        using new(3) False by (auto simp: marked_update)
      moreover have "distinct (map (url_String L) (link # new))"
        using new(3,4) by (auto simp: marked_update)
      moreover have "subseq (link # new) (resolved L b (e # es))"
        using new(5) Some by (simp add: resolved_Cons)
      moreover have "map (url_String L) (link # new) =
          first_occurrences (filter (\<lambda>k. k \<notin> marked sn) (map (url_String L) (resolved L b (e # es))))"
        using new(6) Some False by (simp add: resolved_Cons marked_update conj_commute)
      ultimately show ?thesis
        by blast
    qed
  qed
qed

lemma Parse_links:
  "marked (seen (snd (Parse L H b rd p))) =
     marked (seen p) \<union> set (map (url_String L) (links_of (fst (Parse L H b rd p)))) \<and>
   set (map (url_String L) (links_of (fst (Parse L H b rd p)))) \<inter> marked (seen p) = {} \<and>
   distinct (map (url_String L) (links_of (fst (Parse L H b rd p)))) \<and>
   subseq (links_of (fst (Parse L H b rd p))) (candidates L H p b rd) \<and>
   map (url_String L) (links_of (fst (Parse L H b rd p))) =
     first_occurrences (filter (\<lambda>k. k \<notin> marked (seen p))
       (map (url_String L) (candidates L H p b rd)))"
proof (cases "H rd")
  case (Inl err)
  then show ?thesis
    by (simp add: Parse_def links_of_def candidates_def)
next
  case (Inr doc)
  obtain new sn' where new:
    "foldl (visit L b) ([], seen p) (filter (selected p) (Find doc)) = ([] @ new, sn')"
    "marked sn' = marked (seen p) \<union> set (map (url_String L) new)"
    "set (map (url_String L) new) \<inter> marked (seen p) = {}"
    "distinct (map (url_String L) new)"
    "subseq new (resolved L b (filter (selected p) (Find doc)))"
    "map (url_String L) new =
       first_occurrences (filter (\<lambda>k. k \<notin> marked (seen p))
         (map (url_String L) (resolved L b (filter (selected p) (Find doc)))))"
    using foldl_visit [of L b "[]" "seen p" "filter (selected p) (Find doc)"] by blast
  have res: "Parse L H b rd p = ((Some new, None), p\<lparr>seen := sn'\<rparr>)"
    using Inr new(1) by (simp add: Parse_def extractLinks_def)
  have cands: "candidates L H p b rd = resolved L b (filter (selected p) (Find doc))"
    using Inr by (simp add: candidates_def)
  show ?thesis
    using new(2-6) by (simp only: res cands links_of_def fst_conv snd_conv option.case)
       simp
qed

lemma distinct_append_unmarked:
  assumes "M' = M \<union> set xs" and "set xs \<inter> M = {}" and "distinct xs"
    and "distinct ys" and "set ys \<inter> M' = {}"
  shows "distinct (xs @ ys) \<and> set (xs @ ys) \<inter> M = {}"
  using assms by auto

lemma ParseAll_distinct:
  "distinct (map (url_String L) (concat (map links_of (ParseAll L H calls p)))) \<and>
   set (map (url_String L) (concat (map links_of (ParseAll L H calls p)))) \<inter> marked (seen p) = {}"
proof (induction calls arbitrary: p)
  case Nil
  then show ?case by simp
next
  case (Cons call calls)
  obtain b rd where call: "call = (b, rd)"
    by (cases call)
  let ?res = "fst (Parse L H b rd p)" and ?p' = "snd (Parse L H b rd p)"
  let ?first = "map (url_String L) (links_of ?res)"
  let ?rest = "map (url_String L) (concat (map links_of (ParseAll L H calls ?p')))"
  have unfold: "map (url_String L) (concat (map links_of (ParseAll L H (call # calls) p)))
      = ?first @ ?rest"
    using call by (simp add: case_prod_unfold Let_def)
  note links = Parse_links [of L H b rd p]
  have first: "marked (seen ?p') = marked (seen p) \<union> set ?first"
    "set ?first \<inter> marked (seen p) = {}" "distinct ?first"
    using links by blast+
  note later = Cons.IH [of ?p']
  have rest: "distinct ?rest" "set ?rest \<inter> marked (seen ?p') = {}"
    using later by blast+
  have "distinct (?first @ ?rest) \<and> set (?first @ ?rest) \<inter> marked (seen p) = {}"
    using first rest by (rule distinct_append_unmarked)
  then show ?case
    by (simp only: unfold)
qed

text \<open>
  C7. For every parser, whatever its seen-set holds, and every sequence of \<^verbatim>\<open>Parse\<close> calls
  on it: no URL string occurs twice in the concatenation of the returned link lists. And
  for every call: the returned list is a subsequence of the links that the selected
  elements resolve to, in document order, and its strings are those of these links that
  the seen-set does not yet hold as true, each once, in the order of their first
  occurrence.
\<close>

theorem Parse_emits_each_URL_once_in_document_order:
  "distinct (map (url_String L) (concat (map links_of (ParseAll L H calls p)))) \<and>
   subseq (links_of (fst (Parse L H baseURL reader p))) (candidates L H p baseURL reader) \<and>
   map (url_String L) (links_of (fst (Parse L H baseURL reader p))) =
     first_occurrences (filter (\<lambda>k. seen p k \<noteq> Some True)
       (map (url_String L) (candidates L H p baseURL reader)))"
proof -
  have "(\<lambda>k. k \<notin> marked (seen p)) = (\<lambda>k. seen p k \<noteq> Some True)"
    by (simp add: marked_def)
  then show ?thesis
    using ParseAll_distinct [of L H calls p] Parse_links [of L H baseURL reader p]
    by simp
qed

text \<open>
  The page of the tests, parsed by a fresh parser against the base of the test server:
  the three links that \<^verbatim>\<open>TestStdHttpFetcherFetchLinks\<close> expects, the repeated anchor once.
\<close>

lemma Parse_example_page:
  "map (url_String example_neturl)
     (links_of (fst (Parse example_neturl example_goquery ''http://127.0.0.1:8787'' ''<page>''
        NewGoqueryParser))) =
   [''https://example.com/sample-page/'', ''http://127.0.0.1:8787/sample-page/'',
    ''http://127.0.0.1:8787/foo/bar'']"
  by code_simp

section \<open>Properties of the fetcher\<close>

text \<open>
  C9. In both versions of \<^verbatim>\<open>FetchLinks\<close>: without a parser the result is a non-nil error
  and a nil list of links; so it is when the response has a status of 400 or more, when
  the transport fails, and when the parser fails. Otherwise, the target having been
  parsed by \<^verbatim>\<open>url.Parse\<close>, the parser is run on the body of the response with the scheme
  and the host of the target, joined by \<^verbatim>\<open>://\<close>, as the base URL, and its links are
  returned with a nil error.
\<close>

theorem FetchLinks_errors_and_links:
  "(parser f = None \<longrightarrow>
      (\<exists>e. FetchLinks L C f targetURL = Inr ((0, None, Some e), f)) \<and>
      (\<exists>e. FetchLinks_part_001 L C f targetURL = Inr ((0, None, Some e), f))) \<and>
   (parser f = Some P \<and> url_Parse L targetURL = Inr parsed \<and>
    Fetch C f targetURL = (elapsed, Inr resp) \<and> 400 \<le> StatusCode resp \<longrightarrow>
      (\<exists>e. FetchLinks L C f targetURL = Inr ((elapsed, None, Some e), f)) \<and>
      (\<exists>e. FetchLinks_part_001 L C f targetURL = Inr ((elapsed, None, Some e), f))) \<and>
   (parser f = Some P \<and> url_Parse L targetURL = Inr parsed \<and>
    Fetch C f targetURL = (elapsed, Inl err) \<longrightarrow>
      (\<exists>e. FetchLinks L C f targetURL = Inr ((elapsed, None, Some e), f)) \<and>
      (\<exists>e. FetchLinks_part_001 L C f targetURL = Inr ((elapsed, None, Some e), f))) \<and>
   (parser f = Some P \<and> url_Parse L targetURL = Inr parsed \<and>
    Fetch C f targetURL = (elapsed, Inr resp) \<and> StatusCode resp < 400 \<and>
    Parser_Parse P (Scheme parsed @ ''://'' @ Host parsed) (Body resp) (Parser_state P)
      = ((links, None), st) \<longrightarrow>
      FetchLinks L C f targetURL
        = Inr ((elapsed, links, None), f\<lparr>parser := Some (P\<lparr>Parser_state := st\<rparr>)\<rparr>) \<and>
      FetchLinks_part_001 L C f targetURL
        = Inr ((elapsed, links, None), f\<lparr>parser := Some (P\<lparr>Parser_state := st\<rparr>)\<rparr>)) \<and>
   (parser f = Some P \<and> url_Parse L targetURL = Inr parsed \<and>
    Fetch C f targetURL = (elapsed, Inr resp) \<and> StatusCode resp < 400 \<and>
    Parser_Parse P (Scheme parsed @ ''://'' @ Host parsed) (Body resp) (Parser_state P)
      = ((links, Some perr), st) \<longrightarrow>
      (\<exists>e. FetchLinks L C f targetURL
        = Inr ((elapsed, None, Some e), f\<lparr>parser := Some (P\<lparr>Parser_state := st\<rparr>)\<rparr>)) \<and>
      (\<exists>e. FetchLinks_part_001 L C f targetURL
        = Inr ((elapsed, None, Some e), f\<lparr>parser := Some (P\<lparr>Parser_state := st\<rparr>)\<rparr>)))"
  by (simp add: FetchLinks_def FetchLinks_part_001_def parseStartURL_def Let_def)

text \<open>
  The fetcher of the tests: the page at \<^verbatim>\<open>/foo/bar\<close> gives its three links, a page that
  is not there gives an error, and so does the same fetcher without its parser.
\<close>

theorem FetchLinks_errors_and_links_witness:
  "(\<exists>f'. FetchLinks example_neturl example_http example_fetcher ''http://127.0.0.1:8787/foo/bar''
      = Inr ((7000000,
              Some [\<lparr>Scheme = ''https'', Host = ''example.com'', Path = ''/sample-page/'',
                       RawQuery = [], Fragment = []\<rparr>,
                    \<lparr>Scheme = ''http'', Host = ''127.0.0.1:8787'', Path = ''/sample-page/'',
                       RawQuery = [], Fragment = []\<rparr>,
                    \<lparr>Scheme = ''http'', Host = ''127.0.0.1:8787'', Path = ''/foo/bar'',
                       RawQuery = [], Fragment = []\<rparr>],
              None), f')) \<and>
   (\<exists>e. FetchLinks example_neturl example_http example_fetcher ''http://127.0.0.1:8787/missing''
      = Inr ((3000000, None, Some e), example_fetcher)) \<and>
   (\<exists>e. FetchLinks example_neturl example_http (example_fetcher\<lparr>parser := None\<rparr>)
          ''http://127.0.0.1:8787/foo/bar''
      = Inr ((0, None, Some e), example_fetcher\<lparr>parser := None\<rparr>))"
proof -
  let ?P = "\<lparr>Parser_Parse = Parse example_neturl example_goquery, Parser_state = NewGoqueryParser\<rparr>"
  let ?page = "\<lparr>Scheme = ''http'', Host = ''127.0.0.1:8787'', Path = ''/foo/bar'',
      RawQuery = [], Fragment = []\<rparr>"
  let ?missing = "\<lparr>Scheme = ''http'', Host = ''127.0.0.1:8787'', Path = ''/missing'',
      RawQuery = [], Fragment = []\<rparr>"
  let ?ok = "\<lparr>StatusCode = 200, Status = ''200 OK'', Body = ''<page>''\<rparr>"
  let ?notfound = "\<lparr>StatusCode = 404, Status = ''404 Not Found'', Body = []\<rparr>"
  let ?run = "Parse example_neturl example_goquery ''http://127.0.0.1:8787'' ''<page>'' NewGoqueryParser"
  have parser: "parser example_fetcher = Some ?P"
    by (simp add: example_fetcher_def)
  have page: "url_Parse example_neturl ''http://127.0.0.1:8787/foo/bar'' = Inr ?page"
    by (simp add: example_neturl_def example_Parse_def scheme_char_def)
  have missing: "url_Parse example_neturl ''http://127.0.0.1:8787/missing'' = Inr ?missing"
    by (simp add: example_neturl_def example_Parse_def scheme_char_def)
  have fetch: "Fetch example_http example_fetcher ''http://127.0.0.1:8787/foo/bar'' = (7000000, Inr ?ok)"
    by (simp add: Fetch_def example_http_def)
  have fetch': "Fetch example_http example_fetcher ''http://127.0.0.1:8787/missing''
      = (3000000, Inr ?notfound)"
    by (simp add: Fetch_def example_http_def)
  have links: "fst (fst ?run) = Some [\<lparr>Scheme = ''https'', Host = ''example.com'', Path = ''/sample-page/'',
                       RawQuery = [], Fragment = []\<rparr>,
                    \<lparr>Scheme = ''http'', Host = ''127.0.0.1:8787'', Path = ''/sample-page/'',
                       RawQuery = [], Fragment = []\<rparr>,
                    \<lparr>Scheme = ''http'', Host = ''127.0.0.1:8787'', Path = ''/foo/bar'',
                       RawQuery = [], Fragment = []\<rparr>]"
    by code_simp
  have noerr: "snd (fst ?run) = None"
    by code_simp
  have run: "Parser_Parse ?P (Scheme ?page @ ''://'' @ Host ?page) (Body ?ok) (Parser_state ?P)
      = ((fst (fst ?run), None), snd ?run)"
    using noerr by (simp add: prod_eq_iff)
  have a: "\<exists>f'. FetchLinks example_neturl example_http example_fetcher ''http://127.0.0.1:8787/foo/bar''
      = Inr ((7000000, fst (fst ?run), None), f')"
    using FetchLinks_errors_and_links [where f = example_fetcher and P = ?P and L = example_neturl
        and C = example_http and targetURL = "''http://127.0.0.1:8787/foo/bar''" and parsed = ?page
        and elapsed = 7000000 and resp = ?ok and links = "fst (fst ?run)" and st = "snd ?run"]
      parser page fetch run
    by simp
  have b: "\<exists>e. FetchLinks example_neturl example_http example_fetcher ''http://127.0.0.1:8787/missing''
      = Inr ((3000000, None, Some e), example_fetcher)"
    using FetchLinks_errors_and_links [where f = example_fetcher and P = ?P and L = example_neturl
        and C = example_http and targetURL = "''http://127.0.0.1:8787/missing''" and parsed = ?missing
        and elapsed = 3000000 and resp = ?notfound]
      parser missing fetch'
    by simp
  have c: "\<exists>e. FetchLinks example_neturl example_http (example_fetcher\<lparr>parser := None\<rparr>)
          ''http://127.0.0.1:8787/foo/bar''
      = Inr ((0, None, Some e), example_fetcher\<lparr>parser := None\<rparr>)"
    using FetchLinks_errors_and_links [where f = "example_fetcher\<lparr>parser := None\<rparr>"
        and L = example_neturl and C = example_http and targetURL = "''http://127.0.0.1:8787/foo/bar''"]
    by simp
  from a b c show ?thesis
    by (simp only: links)
qed

section \<open>Properties of the orchestrator\<close>

lemma seeds_parsed:
  "map (url_Parse L) hrefs = map Inr urls \<Longrightarrow>
   seeds L (hrefs @ rest) st =
     seeds L rest (st\<lparr>wg := wg st + length urls,
       engines := engines st @
         map (\<lambda>url. if Scheme url = [] then url\<lparr>Scheme := ''https''\<rparr> else url) urls\<rparr>)"
proof (induction hrefs arbitrary: urls st)
  case Nil
  then show ?case by simp
next
  case (Cons href hrefs)
  then obtain url urls' where urls: "urls = url # urls'" and href: "url_Parse L href = Inr url"
    and rest: "map (url_Parse L) hrefs = map Inr urls'"
    by (cases urls) auto
  show ?case
    using Cons.IH [OF rest] href urls by (simp add: Let_def)
qed

lemma length_filter_all: "(length xs - length (filter P xs) = 0) = list_all P xs"
proof (induction xs)
  case Nil
  then show ?case by simp
next
  case (Cons x xs)
  have short: "\<not> Suc (length xs) \<le> length (filter P xs)"
    by (metis length_filter_le not_less_eq_eq)
  show ?case
  proof (cases "P x")
    case True
    then show ?thesis
      using Cons.IH by simp
  next
    case False
    then show ?thesis
      using short by simp
  qed
qed

text \<open>
  What the loop leaves when every seed parses: one engine and one count of the wait group
  for each.
\<close>

lemma seeds_all_parsed:
  assumes "map (url_Parse L) URLs = map Inr urls"
  shows "seeds L URLs \<lparr>logged = [], engines = [], wg = 0\<rparr> =
    (None, \<lparr>logged = [],
            engines = map (\<lambda>url. if Scheme url = [] then url\<lparr>Scheme := ''https''\<rparr> else url) urls,
            wg = length urls\<rparr>)"
proof -
  have "seeds L (URLs @ []) \<lparr>logged = [], engines = [], wg = 0\<rparr> =
      seeds L [] (\<lparr>logged = [], engines = [], wg = 0\<rparr>
        \<lparr>wg := wg \<lparr>logged = [], engines = [], wg = 0\<rparr> + length urls,
         engines := engines \<lparr>logged = [], engines = [], wg = 0\<rparr> @
           map (\<lambda>url. if Scheme url = [] then url\<lparr>Scheme := ''https''\<rparr> else url) urls\<rparr>)"
    using assms by (rule seeds_parsed)
  then show ?thesis
    by simp
qed

text \<open>
  C4, as the claim states it, fails: with the seeds \<^verbatim>\<open>:bad\<close> and \<^verbatim>\<open>http://example.com/\<close>
  the first does not parse, \<^verbatim>\<open>logger.Fatal\<close> ends the process with status 1, and no engine
  is started for the second; in the other order the engine of the first seed has been
  started, and has not been waited for, when the process is ended. \<^verbatim>\<open>Crawl\<close> returns in
  neither.
\<close>

theorem Crawl_bad_seed_counterexample:
  "url_Parse example_neturl '':bad'' = Inl ''missing protocol scheme'' \<and>
   Crawl example_neturl example_ends ['':bad'', ''http://example.com/'']
     = (Exit 1, \<lparr>logged = [''missing protocol scheme''], engines = [], wg = 0\<rparr>) \<and>
   Crawl example_neturl example_ends [''http://example.com/'', '':bad'']
     = (Exit 1, \<lparr>logged = [''missing protocol scheme''],
                 engines = [\<lparr>Scheme = ''http'', Host = ''example.com'', Path = ''/'',
                              RawQuery = [], Fragment = []\<rparr>],
                 wg = 1\<rparr>)"
  by (simp add: Crawl_def example_neturl_def example_Parse_def scheme_char_def)

text \<open>
  C4, amended. When a seed does not parse, \<^verbatim>\<open>Crawl\<close> logs the error and ends the process
  with exit status 1: engines have been started for the seeds before it and for no seed
  after it, none has been waited for, and \<^verbatim>\<open>Crawl\<close> does not return. When every seed
  parses, an engine is started for each seed, in order and with the scheme \<^verbatim>\<open>https\<close> where
  the seed has none; then \<^verbatim>\<open>Crawl\<close> returns, with no error for its caller, if every engine
  has come to its end, the wait group being back at zero, and it does not return, nor
  log that the crawling is done, if one of them never does.
\<close>

theorem Crawl_exits_on_bad_seed:
  "(map (url_Parse L) before = map Inr urls \<and> url_Parse L href = Inl err \<longrightarrow>
      Crawl L ends (before @ href # after) =
        (Exit 1,
         \<lparr>logged = [err],
          engines = map (\<lambda>url. if Scheme url = [] then url\<lparr>Scheme := ''https''\<rparr> else url) urls,
          wg = length urls\<rparr>)) \<and>
   (map (url_Parse L) URLs = map Inr urls \<and>
    list_all ends (map (\<lambda>url. if Scheme url = [] then url\<lparr>Scheme := ''https''\<rparr> else url) urls)
    \<longrightarrow>
      Crawl L ends URLs =
        (Return,
         \<lparr>logged = [''Crawling done''],
          engines = map (\<lambda>url. if Scheme url = [] then url\<lparr>Scheme := ''https''\<rparr> else url) urls,
          wg = 0\<rparr>)) \<and>
   (map (url_Parse L) URLs = map Inr urls \<and>
    \<not> list_all ends (map (\<lambda>url. if Scheme url = [] then url\<lparr>Scheme := ''https''\<rparr> else url) urls)
    \<longrightarrow>
      fst (Crawl L ends URLs) = Blocked \<and>
      logged (snd (Crawl L ends URLs)) = [] \<and>
      engines (snd (Crawl L ends URLs)) =
        map (\<lambda>url. if Scheme url = [] then url\<lparr>Scheme := ''https''\<rparr> else url) urls)"
proof (intro conjI impI)
  assume "map (url_Parse L) before = map Inr urls \<and> url_Parse L href = Inl err"
  then show "Crawl L ends (before @ href # after) =
      (Exit 1,
       \<lparr>logged = [err],
        engines = map (\<lambda>url. if Scheme url = [] then url\<lparr>Scheme := ''https''\<rparr> else url) urls,
        wg = length urls\<rparr>)"
    by (simp add: Crawl_def seeds_parsed)
next
  let ?started = "map (\<lambda>url. if Scheme url = [] then url\<lparr>Scheme := ''https''\<rparr> else url) urls"
  assume a: "map (url_Parse L) URLs = map Inr urls \<and> list_all ends ?started"
  then have parsed: "map (url_Parse L) URLs = map Inr urls"
    by blast
  have loop: "seeds L URLs \<lparr>logged = [], engines = [], wg = 0\<rparr> =
      (None, \<lparr>logged = [], engines = ?started, wg = length urls\<rparr>)"
    using parsed by (rule seeds_all_parsed)
  have "length ?started - length (filter ends ?started) = 0"
    using a length_filter_all [of ?started ends] by blast
  then have "length urls - length (filter ends ?started) = 0"
    by (simp only: length_map)
  moreover have "Done_engines ends \<lparr>logged = [], engines = ?started, wg = length urls\<rparr> =
      \<lparr>logged = [], engines = ?started, wg = length urls - length (filter ends ?started)\<rparr>"
    by (simp add: Done_engines_def)
  ultimately have finished: "Done_engines ends \<lparr>logged = [], engines = ?started, wg = length urls\<rparr> =
      \<lparr>logged = [], engines = ?started, wg = 0\<rparr>"
    by (simp only:)
  show "Crawl L ends URLs =
      (Return, \<lparr>logged = [''Crawling done''], engines = ?started, wg = 0\<rparr>)"
    by (simp add: Crawl_def loop Let_def finished)
next
  let ?started = "map (\<lambda>url. if Scheme url = [] then url\<lparr>Scheme := ''https''\<rparr> else url) urls"
  let ?st = "\<lparr>logged = [], engines = ?started, wg = length urls\<rparr>"
  assume a: "map (url_Parse L) URLs = map Inr urls \<and> \<not> list_all ends ?started"
  then have parsed: "map (url_Parse L) URLs = map Inr urls"
    by blast
  have loop: "seeds L URLs \<lparr>logged = [], engines = [], wg = 0\<rparr> = (None, ?st)"
    using parsed by (rule seeds_all_parsed)
  have "length ?started - length (filter ends ?started) \<noteq> 0"
    using a length_filter_all [of ?started ends] by blast
  then have "length urls - length (filter ends ?started) \<noteq> 0"
    by (simp only: length_map not_False_eq_True)
  moreover have "wg (Done_engines ends ?st) = length urls - length (filter ends ?started)"
    by (simp add: Done_engines_def)
  ultimately have waiting: "wg (Done_engines ends ?st) \<noteq> 0"
    by (simp only: not_False_eq_True)
  have "Crawl L ends URLs =
      (if wg (Done_engines ends ?st) = 0
       then (Return, (Done_engines ends ?st)
              \<lparr>logged := logged (Done_engines ends ?st) @ [''Crawling done'']\<rparr>)
       else (Blocked, Done_engines ends ?st))"
    by (simp add: Crawl_def loop Let_def)
  then have "Crawl L ends URLs = (Blocked, Done_engines ends ?st)"
    using waiting by (simp only: if_False)
  then show "fst (Crawl L ends URLs) = Blocked"
    and "logged (snd (Crawl L ends URLs)) = []"
    and "engines (snd (Crawl L ends URLs)) = ?started"
    by (simp_all add: Done_engines_def)
qed

text \<open>
  Three seeds, the second of which does not parse: the first, which has no scheme, gets
  its engine with the scheme \<^verbatim>\<open>https\<close>; the third is never started. Without the bad seed
  both engines are started and \<^verbatim>\<open>Crawl\<close> returns when both have ended. With a seed whose
  engine never ends, \<^verbatim>\<open>Crawl\<close> does not return.
\<close>

theorem Crawl_exits_on_bad_seed_witness:
  "Crawl example_neturl example_ends [''example.com/a'', '':bad'', ''http://example.org/'']
     = (Exit 1,
        \<lparr>logged = [''missing protocol scheme''],
         engines = [\<lparr>Scheme = ''https'', Host = [], Path = ''example.com/a'',
                      RawQuery = [], Fragment = []\<rparr>],
         wg = 1\<rparr>) \<and>
   Crawl example_neturl example_ends [''example.com/a'', ''http://example.org/'']
     = (Return,
        \<lparr>logged = [''Crawling done''],
         engines = [\<lparr>Scheme = ''https'', Host = [], Path = ''example.com/a'',
                      RawQuery = [], Fragment = []\<rparr>,
                    \<lparr>Scheme = ''http'', Host = ''example.org'', Path = ''/'',
                      RawQuery = [], Fragment = []\<rparr>],
         wg = 0\<rparr>) \<and>
   fst (Crawl example_neturl example_ends [''http://stuck.test/'', ''http://example.org/''])
     = Blocked"
proof -
  let ?a = "\<lparr>Scheme = [], Host = [], Path = ''example.com/a'', RawQuery = [], Fragment = []\<rparr>"
  let ?org = "\<lparr>Scheme = ''http'', Host = ''example.org'', Path = ''/'', RawQuery = [], Fragment = []\<rparr>"
  let ?stuck = "\<lparr>Scheme = ''http'', Host = ''stuck.test'', Path = ''/'', RawQuery = [], Fragment = []\<rparr>"
  have a: "map (url_Parse example_neturl) [''example.com/a''] = map Inr [?a]"
    by (simp add: example_neturl_def example_Parse_def scheme_char_def)
  have bad: "url_Parse example_neturl '':bad'' = Inl ''missing protocol scheme''"
    by (simp add: example_neturl_def example_Parse_def)
  have both: "map (url_Parse example_neturl) [''example.com/a'', ''http://example.org/'']
      = map Inr [?a, ?org]"
    by (simp add: example_neturl_def example_Parse_def scheme_char_def)
  have stuck: "map (url_Parse example_neturl) [''http://stuck.test/'', ''http://example.org/'']
      = map Inr [?stuck, ?org]"
    by (simp add: example_neturl_def example_Parse_def scheme_char_def)
  have ended: "list_all example_ends
      (map (\<lambda>url. if Scheme url = [] then url\<lparr>Scheme := ''https''\<rparr> else url) [?a, ?org])"
    by (simp add: example_ends_def)
  have never: "\<not> list_all example_ends
      (map (\<lambda>url. if Scheme url = [] then url\<lparr>Scheme := ''https''\<rparr> else url) [?stuck, ?org])"
    by (simp add: example_ends_def)
  have "Crawl example_neturl example_ends ([''example.com/a''] @ '':bad'' # [''http://example.org/''])
     = (Exit 1,
        \<lparr>logged = [''missing protocol scheme''],
         engines = map (\<lambda>url. if Scheme url = [] then url\<lparr>Scheme := ''https''\<rparr> else url) [?a],
         wg = length [?a]\<rparr>)"
    using Crawl_exits_on_bad_seed [where L = example_neturl and before = "[''example.com/a'']"
        and urls = "[?a]" and href = "'':bad''" and err = "''missing protocol scheme''"
        and after = "[''http://example.org/'']" and ends = example_ends] a bad
    by blast
  moreover have "Crawl example_neturl example_ends [''example.com/a'', ''http://example.org/'']
     = (Return,
        \<lparr>logged = [''Crawling done''],
         engines = map (\<lambda>url. if Scheme url = [] then url\<lparr>Scheme := ''https''\<rparr> else url) [?a, ?org],
         wg = 0\<rparr>)"
    using Crawl_exits_on_bad_seed [where L = example_neturl and ends = example_ends
        and URLs = "[''example.com/a'', ''http://example.org/'']" and urls = "[?a, ?org]"]
      both ended
    by blast
  moreover have "fst (Crawl example_neturl example_ends
      [''http://stuck.test/'', ''http://example.org/'']) = Blocked"
    using Crawl_exits_on_bad_seed [where L = example_neturl and ends = example_ends
        and URLs = "[''http://stuck.test/'', ''http://example.org/'']" and urls = "[?stuck, ?org]"]
      stuck never
    by blast
  ultimately show ?thesis
    by simp
qed

end
